theory Spec2Isabelle
  imports Main "HOL-Library.AList"
begin

section \<open>The project loader of the inlang SDK (loadProject.ts)\<close>

text \<open>
  A shallow embedding of \<^verbatim>\<open>loadProject\<close> and of the functions beside it
  (\<^verbatim>\<open>loadSettings\<close>, \<^verbatim>\<open>parseSettings\<close>, \<^verbatim>\<open>skipFirst\<close>): settings loading and validation,
  the initial load of the message files, the handler of a filesystem watch event, the effect
  that tracks the messages of the store, and the import of a plugin's messages.

  The loader is written against collaborators that are imported from other modules: the
  filesystem, the settings validator and migration, the message codec
  (\<^verbatim>\<open>parseMessage\<close>, \<^verbatim>\<open>encodeMessage\<close>, \<^verbatim>\<open>getMessageIdFromPath\<close>,
  \<^verbatim>\<open>getPathFromMessageId\<close>), \<^verbatim>\<open>humanIdHash\<close>, and the message query
  (\<^verbatim>\<open>createMessagesQuery\<close>). Functions are taken as parameters (records of functions);
  the filesystem and the message query are small executable models.

  Asynchronous code is sequentialised in the order in which the loader awaits it. A promise
  that the loader does not await (the write of the settings file, the write and the removal
  of a message file) is modelled by its effect on the filesystem; when it is rejected, no
  handler of the loader sees the error, and the state of the project records it as an
  unhandled rejection.
\<close>

subsection \<open>Filesystem\<close>

text \<open>
  What the loader can observe of a path: nothing there, a file with its text, a directory,
  or a node whose every access is refused. The error codes are those the loader compares
  against (\<^verbatim>\<open>ENOENT\<close>, \<^verbatim>\<open>EEXIST\<close>) and two more that a read can fail with.
\<close>

datatype fs_error = ENOENT | EEXIST | EISDIR | EACCES

datatype fs_node = File string | Directory | Denied

type_synonym filesystem = "string \<rightharpoonup> fs_node"

definition readFile :: "filesystem \<Rightarrow> string \<Rightarrow> fs_error + string" where
  "readFile fs path =
    (case fs path of
       None \<Rightarrow> Inl ENOENT
     | Some (File content) \<Rightarrow> Inr content
     | Some Directory \<Rightarrow> Inl EISDIR
     | Some Denied \<Rightarrow> Inl EACCES)"

definition stat :: "filesystem \<Rightarrow> string \<Rightarrow> fs_error + fs_node" where
  "stat fs path =
    (case fs path of
       None \<Rightarrow> Inl ENOENT
     | Some Denied \<Rightarrow> Inl EACCES
     | Some node \<Rightarrow> Inr node)"

definition writeFile :: "filesystem \<Rightarrow> string \<Rightarrow> string \<Rightarrow> fs_error + filesystem" where
  "writeFile fs path content =
    (case fs path of
       Some Directory \<Rightarrow> Inl EISDIR
     | Some Denied \<Rightarrow> Inl EACCES
     | _ \<Rightarrow> Inr (fs(path \<mapsto> File content)))"

text \<open>\<^verbatim>\<open>mkdir\<close> with \<^verbatim>\<open>recursive: true\<close>: a directory that is there is no error.\<close>

definition mkdir :: "filesystem \<Rightarrow> string \<Rightarrow> fs_error + filesystem" where
  "mkdir fs path =
    (case fs path of
       None \<Rightarrow> Inr (fs(path \<mapsto> Directory))
     | Some (File content) \<Rightarrow> Inl EEXIST
     | Some Directory \<Rightarrow> Inr fs
     | Some Denied \<Rightarrow> Inl EACCES)"

definition rm :: "filesystem \<Rightarrow> string \<Rightarrow> fs_error + filesystem" where
  "rm fs path =
    (case fs path of
       None \<Rightarrow> Inl ENOENT
     | Some (File content) \<Rightarrow> Inr (fs(path := None))
     | Some Directory \<Rightarrow> Inl EISDIR
     | Some Denied \<Rightarrow> Inl EACCES)"

subsection \<open>Errors\<close>

text \<open>
  A \<^verbatim>\<open>ValueError\<close> of the schema validator, by the three fields the loader fills in
  itself when it builds one.
\<close>

record value_error =
  message_err :: string
  value_err :: string
  path_err :: string

text \<open>
  The error classes of \<^verbatim>\<open>errors.js\<close> that the loader throws, a plain
  \<^verbatim>\<open>new Error(text)\<close>, and an error of the filesystem or of a plugin that passes through.
\<close>

datatype error =
    LoadProjectInvalidArgument string
  | ProjectSettingsFileNotFoundError fs_error string
  | ProjectSettingsFileJSONSyntaxError string
  | ProjectSettingsInvalidError "value_error list"
  | PluginLoadMessagesError fs_error
  | FsError fs_error
  | ModuleError string
  | JsError string

subsection \<open>Settings\<close>

record project_settings =
  sourceLanguageTag :: string
  languageTags :: "string list"
  modules :: "string list"
  messageLintRuleLevels :: "(string \<times> string) list"

text \<open>
  The imported functions of the settings code: \<^verbatim>\<open>migrateIfOutdated\<close>, the compiled schema
  (\<^verbatim>\<open>settingsCompiler.Check\<close>, \<^verbatim>\<open>settingsCompiler.Errors\<close>), \<^verbatim>\<open>JSON.parse\<close>
  (\<open>None\<close> when it throws) and \<^verbatim>\<open>JSON.stringify\<close>. A settings value is seen through the
  type \<^verbatim>\<open>ProjectSettings\<close>, as the casts of \<^verbatim>\<open>parseSettings\<close> see it.
\<close>

record settings_api =
  migrateIfOutdated :: "project_settings \<Rightarrow> project_settings"
  Check :: "project_settings \<Rightarrow> bool"
  Errors :: "project_settings \<Rightarrow> value_error list"
  jsonParse :: "string \<rightharpoonup> project_settings"
  jsonStringify :: "project_settings \<Rightarrow> string"

text \<open>\<^verbatim>\<open>Array.prototype.join\<close>.\<close>

fun join :: "string \<Rightarrow> string list \<Rightarrow> string" where
  "join sep [] = []"
| "join sep [x] = x"
| "join sep (x # y # ys) = x @ sep @ join sep (y # ys)"

definition sourceLanguageTagError :: "project_settings \<Rightarrow> value_error" where
  "sourceLanguageTagError settings =
    \<lparr> message_err =
        ''The sourceLanguageTag \"'' @ sourceLanguageTag settings
        @ ''\" is not included in the languageTags \"''
        @ join ''\", \"'' (languageTags settings)
        @ ''\". Please add it to the languageTags.'',
      value_err = sourceLanguageTag settings,
      path_err = ''sourceLanguageTag'' \<rparr>"

text \<open>
  \<^verbatim>\<open>parseSettings\<close>: the schema is checked on the migrated value, its errors are listed
  for the value as passed, and a failed check whose list of errors is empty throws nothing;
  the language tags are read from the value as passed; the migrated value is returned.
\<close>

definition parseSettings :: "settings_api \<Rightarrow> project_settings \<Rightarrow> error + project_settings" where
  "parseSettings api settings =
    (let withMigration = migrateIfOutdated api settings in
     if \<not> Check api withMigration \<and> Errors api settings \<noteq> []
     then Inl (ProjectSettingsInvalidError (Errors api settings))
     else if sourceLanguageTag settings \<notin> set (languageTags settings)
     then Inl (ProjectSettingsInvalidError [sourceLanguageTagError settings])
     else Inr withMigration)"

definition loadSettings :: "settings_api \<Rightarrow> filesystem \<Rightarrow> string \<Rightarrow> error + project_settings" where
  "loadSettings api fs settingsFilePath =
    (case readFile fs settingsFilePath of
       Inl settingsFileError \<Rightarrow>
         Inl (ProjectSettingsFileNotFoundError settingsFileError settingsFilePath)
     | Inr settingsFile \<Rightarrow>
         (case jsonParse api settingsFile of
            None \<Rightarrow> Inl (ProjectSettingsFileJSONSyntaxError settingsFilePath)
          | Some json \<Rightarrow> parseSettings api json))"

subsection \<open>Messages and their codec\<close>

text \<open>
  A message: its id, its aliases (a JavaScript object, so keys in insertion order; writing a
  key that exists keeps its place, which is \<open>AList.update\<close>) and its variants (language
  tag and pattern text).
\<close>

record message =
  id_msg :: string
  alias_msg :: "(string \<times> string) list"
  variants :: "(string \<times> string) list"

text \<open>
  The imported functions of the message code. \<open>parseMessage\<close> is \<open>None\<close> when it throws.
  \<open>encodeMessage\<close> is total on messages; the watch handler also calls it on
  \<^verbatim>\<open>undefined\<close>, and \<open>encodeUndefinedThrows\<close> says whether that call throws.
  \<open>localeCompare\<close> is \<^verbatim>\<open>String.prototype.localeCompare\<close>, \<open>getDirname\<close> is the
  function of that name of the filesystem library.
\<close>

record message_api =
  parseMessage :: "string \<Rightarrow> string \<Rightarrow> message option"
  encodeMessage :: "message \<Rightarrow> string"
  encodeUndefinedThrows :: bool
  getMessageIdFromPath :: "string \<Rightarrow> string option"
  getPathFromMessageId :: "string \<Rightarrow> string"
  humanIdHash :: "string \<Rightarrow> nat \<Rightarrow> string"
  localeCompare :: "string \<Rightarrow> string \<Rightarrow> int"
  getDirname :: "string \<Rightarrow> string"

subsection \<open>The message query\<close>

text \<open>
  Modelled from the spec: \<^verbatim>\<open>createMessagesQuery\<close> is not among the sources. The spec's
  Message Store is an in-memory mapping of message id to message with the operations
  \<open>get\<close>, \<open>getAll\<close>, \<open>upsert\<close>, \<open>create\<close>, \<open>delete\<close> and \<open>includedMessageIds\<close>; the loader
  also calls \<open>update\<close>. The mapping keeps its keys in insertion order. \<open>upsert\<close> writes the
  key it is given, \<open>update\<close> writes a key only where it exists, \<open>create\<close> inserts a message
  under its own id unless the id is taken, \<open>delete\<close> removes a key.
\<close>

type_synonym message_store = "(string \<times> message) list"

definition get :: "message_store \<Rightarrow> string \<Rightarrow> message option" where
  "get store ident = map_of store ident"

definition getAll :: "message_store \<Rightarrow> message list" where
  "getAll store = map snd store"

definition includedMessageIds :: "message_store \<Rightarrow> string list" where
  "includedMessageIds store = map fst store"

definition upsert :: "message_store \<Rightarrow> string \<Rightarrow> message \<Rightarrow> message_store" where
  "upsert store ident data = AList.update ident data store"

definition update :: "message_store \<Rightarrow> string \<Rightarrow> message \<Rightarrow> message_store" where
  "update store ident data =
    (if map_of store ident = None then store else AList.update ident data store)"

definition create :: "message_store \<Rightarrow> message \<Rightarrow> message_store" where
  "create store data =
    (if map_of store (id_msg data) = None then store @ [(id_msg data, data)] else store)"

definition delete :: "message_store \<Rightarrow> string \<Rightarrow> message_store" where
  "delete store ident = AList.delete ident store"

text \<open>A call of a mutating operation of the query, as the loader makes it.\<close>

datatype mutation =
    Create message
  | Update string message
  | Upsert string message
  | Delete string

fun applyMutation :: "mutation \<Rightarrow> message_store \<Rightarrow> message_store" where
  "applyMutation (Create data) store = create store data"
| "applyMutation (Update ident data) store = update store ident data"
| "applyMutation (Upsert ident data) store = upsert store ident data"
| "applyMutation (Delete ident) store = delete store ident"

subsection \<open>State of a project\<close>

text \<open>
  The mutable cells of \<^verbatim>\<open>loadProject\<close>: the settings signal, the flag of
  \<^verbatim>\<open>skipFirst\<close>, the message query with the log of the mutating calls made on it, the
  keys of the map \<^verbatim>\<open>trackedMessages\<close>, and the filesystem; and the errors of the
  promises that were rejected with no handler.
\<close>

record project_state =
  settingsSignal :: "project_settings option"
  skipFirstInitial :: bool
  messagesQuery :: message_store
  mutations :: "mutation list"
  trackedMessages :: "string list"
  nodeishFs :: filesystem
  unhandledRejections :: "error list"

definition mutate :: "mutation \<Rightarrow> project_state \<Rightarrow> project_state" where
  "mutate m st =
    st\<lparr> messagesQuery := applyMutation m (messagesQuery st),
        mutations := mutations st @ [m] \<rparr>"

subsection \<open>Setting the settings\<close>

text \<open>
  \<^verbatim>\<open>writeSettingsToDisk = skipFirst(_writeSettingsToDisk)\<close>: the first call only raises
  the flag, later calls write the file. The write is not awaited: the error of a failed
  write is thrown in a promise that nothing handles.
\<close>

definition writeSettingsToDisk ::
  "settings_api \<Rightarrow> string \<Rightarrow> project_settings \<Rightarrow> project_state \<Rightarrow> project_state" where
  "writeSettingsToDisk api projectPath settings st =
    (if skipFirstInitial st
     then (case writeFile (nodeishFs st) (projectPath @ ''/settings.json'')
                  (jsonStringify api settings) of
             Inl writeSettingsError \<Rightarrow>
               st\<lparr> unhandledRejections :=
                     unhandledRejections st @ [FsError writeSettingsError] \<rparr>
           | Inr fs \<Rightarrow> st\<lparr> nodeishFs := fs \<rparr>)
     else st\<lparr> skipFirstInitial := True \<rparr>)"

text \<open>
  The \<^verbatim>\<open>Result\<close> of \<^verbatim>\<open>setSettings\<close>: \<^verbatim>\<open>{ data: undefined }\<close> or
  \<^verbatim>\<open>{ error }\<close> with a \<^verbatim>\<open>ProjectSettingsInvalidError\<close>. Any other error of
  \<^verbatim>\<open>parseSettings\<close> is thrown again as a plain error (\<open>Inl\<close>).
\<close>

datatype settings_result = Data | InvalidSettings "value_error list"

definition setSettings ::
  "settings_api \<Rightarrow> string \<Rightarrow> project_state \<Rightarrow> project_settings
    \<Rightarrow> error + settings_result \<times> project_state" where
  "setSettings api projectPath st settings =
    (case parseSettings api settings of
       Inr validatedSettings \<Rightarrow>
         Inr (Data,
              writeSettingsToDisk api projectPath validatedSettings
                (st\<lparr> settingsSignal := Some validatedSettings \<rparr>))
     | Inl (ProjectSettingsInvalidError errors) \<Rightarrow> Inr (InvalidSettings errors, st)
     | Inl other \<Rightarrow>
         Inl (JsError
           ''Unhandled error in setSettings. This is an internal bug. Please file an issue.''))"

subsection \<open>Initial load of the message files\<close>

text \<open>
  The loop of \<^verbatim>\<open>loadAndSetMessages\<close> over the paths that the directory walk returned
  (each starts with a slash). A path with no message id (\<^verbatim>\<open>undefined\<close> or the empty
  string) is skipped; a failed read and a failed parse are caught by the \<^verbatim>\<open>catch\<close> of
  the loop body, whose block is empty.
\<close>

fun loadMessageFiles ::
  "message_api \<Rightarrow> filesystem \<Rightarrow> string \<Rightarrow> string list \<Rightarrow> message list" where
  "loadMessageFiles api fs messageFolderPath [] = []"
| "loadMessageFiles api fs messageFolderPath (messageFilePath # rest) =
    (case getMessageIdFromPath api messageFilePath of
       None \<Rightarrow> loadMessageFiles api fs messageFolderPath rest
     | Some messageId \<Rightarrow>
         if messageId = [] then loadMessageFiles api fs messageFolderPath rest
         else (case readFile fs (messageFolderPath @ messageFilePath) of
                 Inl e \<Rightarrow> loadMessageFiles api fs messageFolderPath rest
               | Inr messageRaw \<Rightarrow>
                   (case parseMessage api messageFilePath messageRaw of
                      None \<Rightarrow> loadMessageFiles api fs messageFolderPath rest
                    | Some message \<Rightarrow>
                        message # loadMessageFiles api fs messageFolderPath rest)))"

text \<open>
  \<^verbatim>\<open>loadAndSetMessages\<close>: \<open>mkdir\<close> and the directory walk are taken by their outcome
  (\<open>walk\<close>: the error that \<open>mkdir\<close>, \<open>readdir\<close> or \<open>stat\<close> threw, or the paths). \<open>Inl\<close> is
  \<^verbatim>\<open>markInitAsFailed\<close>, \<open>Inr\<close> is \<^verbatim>\<open>setMessages\<close> followed by
  \<^verbatim>\<open>markInitAsComplete\<close>.
\<close>

definition loadAndSetMessages ::
  "message_api \<Rightarrow> filesystem \<Rightarrow> string \<Rightarrow> fs_error + string list \<Rightarrow> error + message list" where
  "loadAndSetMessages api fs messageFolderPath walk =
    (case walk of
       Inl err \<Rightarrow> Inl (PluginLoadMessagesError err)
     | Inr messageFilePaths \<Rightarrow>
         Inr (loadMessageFiles api fs messageFolderPath messageFilePaths))"

text \<open>
  Modelled from the spec: the query is created over the loaded messages
  (\<^verbatim>\<open>createMessagesQuery(() => messages() || [])\<close>), which the spec calls committing them
  into the Message Store as the initial snapshot: each under its own id.
\<close>

definition storeOfMessages :: "message list \<Rightarrow> message_store" where
  "storeOfMessages loadedMessages =
    foldl (\<lambda>store message. upsert store (id_msg message) message) [] loadedMessages"

subsection \<open>A filesystem watch event\<close>

text \<open>
  The read of the watch loop: a read that fails with \<^verbatim>\<open>ENOENT\<close> leaves
  \<^verbatim>\<open>fileContent\<close> undefined (\<open>None\<close>), any other failure is thrown again.
\<close>

definition readWatchedFile :: "filesystem \<Rightarrow> string \<Rightarrow> error + string option" where
  "readWatchedFile fs path =
    (case readFile fs path of
       Inl e \<Rightarrow> if e \<noteq> ENOENT then Inl (FsError e) else Inr None
     | Inr fileContent \<Rightarrow> Inr (Some fileContent))"

text \<open>
  The body of the \<^verbatim>\<open>for await\<close> loop for one event. \<open>Inl\<close> is an error thrown out of the
  loop. \<^verbatim>\<open>!event.filename\<close>, \<^verbatim>\<open>!messageId\<close> and \<^verbatim>\<open>!fileContent\<close> are true of
  \<^verbatim>\<open>undefined\<close> and of the empty string alike.
\<close>

definition handleWatchEvent ::
  "message_api \<Rightarrow> string \<Rightarrow> project_state \<Rightarrow> string option \<Rightarrow> error + project_state" where
  "handleWatchEvent api messageFolderPath st filename =
    (if filename = None \<or> filename = Some [] then Inl (JsError ''filename not set in event...'')
     else
      (case getMessageIdFromPath api (the filename) of
         None \<Rightarrow> Inr st
       | Some messageId \<Rightarrow>
           if messageId = [] then Inr st
           else
            (case readWatchedFile (nodeishFs st) (messageFolderPath @ ''/'' @ the filename) of
               Inl e \<Rightarrow> Inl e
             | Inr fileContent \<Rightarrow>
                 if fileContent = None \<or> fileContent = Some []
                 then Inr (mutate (Delete messageId) st)
                 else
                  (case parseMessage api (the filename) (the fileContent) of
                     None \<Rightarrow> Inr st
                   | Some message \<Rightarrow>
                       (case get (messagesQuery st) messageId of
                          None \<Rightarrow>
                            if encodeUndefinedThrows api then Inr st
                            else Inr (mutate (Upsert messageId message) st)
                        | Some currentMessage \<Rightarrow>
                            if encodeMessage api currentMessage = the fileContent then Inr st
                            else Inr (mutate (Upsert messageId message) st))))))"

subsection \<open>The effects that track and persist the messages of the query\<close>

text \<open>
  \<^verbatim>\<open>persistMessage\<close>: the directory of the path is made, and a failure of that is
  swallowed; then the encoded message is written. \<^verbatim>\<open>persistMessage\<close> is called and not
  awaited, so a failed write is an unhandled rejection.
\<close>

definition persistMessage ::
  "message_api \<Rightarrow> string \<Rightarrow> message \<Rightarrow> project_state \<Rightarrow> project_state" where
  "persistMessage api path message st =
    (let dir = getDirname api path;
         dir = (if dir \<noteq> [] \<and> last dir = CHR ''/'' then butlast dir else dir);
         fs = (case mkdir (nodeishFs st) dir of Inl e \<Rightarrow> nodeishFs st | Inr fs \<Rightarrow> fs)
     in case writeFile fs path (encodeMessage api message) of
          Inl e \<Rightarrow>
            st\<lparr> nodeishFs := fs, unhandledRejections := unhandledRejections st @ [FsError e] \<rparr>
        | Inr fs' \<Rightarrow> st\<lparr> nodeishFs := fs' \<rparr>)"

text \<open>
  One run of the effect of one message (the inner \<^verbatim>\<open>createEffect\<close>): nothing when
  the message is not in the query; its first run, when the id is not yet in the map
  \<^verbatim>\<open>trackedMessages\<close>, registers the id; a later run writes the message to the file
  whose path its own id gives.
\<close>

definition trackedMessageEffect ::
  "message_api \<Rightarrow> string \<Rightarrow> string \<Rightarrow> project_state \<Rightarrow> project_state" where
  "trackedMessageEffect api messageFolderPath messageId st =
    (case get (messagesQuery st) messageId of
       None \<Rightarrow> st
     | Some message \<Rightarrow>
         if messageId \<in> set (trackedMessages st)
         then persistMessage api
                (messageFolderPath @ ''/'' @ getPathFromMessageId api (id_msg message)) message st
         else st\<lparr> trackedMessages := trackedMessages st @ [messageId] \<rparr>)"

text \<open>
  The removal of the file of a deleted message. \<^verbatim>\<open>nodeishFs.rm\<close> returns a promise
  and is called without \<^verbatim>\<open>await\<close>: the \<^verbatim>\<open>try\<close> around the call, which is meant to
  let \<^verbatim>\<open>ENOENT\<close> pass, never sees the failure of the removal, which is an unhandled
  rejection whatever its code.
\<close>

definition removeMessageFile ::
  "message_api \<Rightarrow> string \<Rightarrow> string \<Rightarrow> project_state \<Rightarrow> project_state" where
  "removeMessageFile api messageFolderPath deletedMessage st =
    (case rm (nodeishFs st)
            (messageFolderPath @ ''/'' @ getPathFromMessageId api deletedMessage) of
       Inl e \<Rightarrow> st\<lparr> unhandledRejections := unhandledRejections st @ [FsError e] \<rparr>
     | Inr fs \<Rightarrow> st\<lparr> nodeishFs := fs \<rparr>)"

text \<open>
  One run of the effect over the ids of the query (the outer \<^verbatim>\<open>createEffect\<close>): the
  tracked ids that are no longer in the query are collected; each id of the query that is
  not tracked gets a root with the effect of its message, which runs once; then, for each
  collected id, the message file is removed and the id is dropped from the map.
\<close>

definition trackedMessagesEffect ::
  "message_api \<Rightarrow> string \<Rightarrow> project_state \<Rightarrow> project_state" where
  "trackedMessagesEffect api messageFolderPath st =
    (let currentMessageIds = includedMessageIds (messagesQuery st);
         deletedMessageTrackedMessage =
           filter (\<lambda>tracked. tracked \<notin> set currentMessageIds) (trackedMessages st);
         st1 = foldl (\<lambda>st messageId.
                        if messageId \<in> set (trackedMessages st) then st
                        else trackedMessageEffect api messageFolderPath messageId st)
                     st currentMessageIds
     in foldl (\<lambda>st deletedMessage.
                 (removeMessageFile api messageFolderPath deletedMessage st)
                   \<lparr> trackedMessages :=
                       filter (\<lambda>tracked. tracked \<noteq> deletedMessage) (trackedMessages st) \<rparr>)
              st1 deletedMessageTrackedMessage)"

text \<open>
  The effects that run after a call of a mutating operation of the query, on the state
  after the call: the effect of the message that was written (it has none before it is
  created), then the effect over the ids.
\<close>

fun effectsAfter :: "message_api \<Rightarrow> string \<Rightarrow> mutation \<Rightarrow> project_state \<Rightarrow> project_state" where
  "effectsAfter api messageFolderPath (Create data) st =
    trackedMessagesEffect api messageFolderPath st"
| "effectsAfter api messageFolderPath (Update ident data) st =
    trackedMessagesEffect api messageFolderPath
      (if ident \<in> set (trackedMessages st)
       then trackedMessageEffect api messageFolderPath ident st else st)"
| "effectsAfter api messageFolderPath (Upsert ident data) st =
    trackedMessagesEffect api messageFolderPath
      (if ident \<in> set (trackedMessages st)
       then trackedMessageEffect api messageFolderPath ident st else st)"
| "effectsAfter api messageFolderPath (Delete ident) st =
    trackedMessagesEffect api messageFolderPath st"

subsection \<open>Import of a plugin's messages\<close>

text \<open>
  \<^verbatim>\<open>importedMessages.sort((a, b) => a.id.localeCompare(b.id))\<close>: a stable sort by the
  comparison of the ids.
\<close>

fun insertImported :: "(string \<Rightarrow> string \<Rightarrow> int) \<Rightarrow> message \<Rightarrow> message list \<Rightarrow> message list" where
  "insertImported compare importMessageA [] = [importMessageA]"
| "insertImported compare importMessageA (importMessageB # rest) =
    (if compare (id_msg importMessageA) (id_msg importMessageB) \<le> 0
     then importMessageA # importMessageB # rest
     else importMessageB # insertImported compare importMessageA rest)"

definition messagesToImportSorted ::
  "(string \<Rightarrow> string \<Rightarrow> int) \<Rightarrow> message list \<Rightarrow> message list" where
  "messagesToImportSorted compare importedMessages =
    foldr (insertImported compare) importedMessages []"

text \<open>
  The alias that both branches of the import give the imported message: an empty object,
  then the entry of the loading plugin, then the entry of paraglide, both with the id the
  plugin gave the message.
\<close>

definition importedAlias :: "string \<Rightarrow> string \<Rightarrow> (string \<times> string) list" where
  "importedAlias loadPluginId importedId =
    AList.update ''library.inlang.paraglideJs'' importedId
      (AList.update loadPluginId importedId [])"

text \<open>
  The \<^verbatim>\<open>do ... while\<close> loop that looks for a message id: the id is
  \<^verbatim>\<open>humanIdHash(importedMessage.id, currentOffset)\<close>, the path that is looked at is
  \<^verbatim>\<open>getPathFromMessageId(messsageId)\<close> (the message folder is not put in front of it),
  a \<^verbatim>\<open>stat\<close> that fails with \<^verbatim>\<open>ENOENT\<close> keeps the id, any other failure is thrown,
  and a \<^verbatim>\<open>stat\<close> that succeeds moves on to the next offset. The loop has no bound:
  \<open>None\<close> is the loop that never ends.
\<close>

partial_function (option) findMessageId ::
  "message_api \<Rightarrow> filesystem \<Rightarrow> string \<Rightarrow> nat \<Rightarrow> (error + string) option" where
  "findMessageId api fs importedId currentOffset =
    (case stat fs (getPathFromMessageId api (humanIdHash api importedId currentOffset)) of
       Inl e \<Rightarrow>
         if e = ENOENT then Some (Inr (humanIdHash api importedId currentOffset))
         else Some (Inl (FsError e))
     | Inr node \<Rightarrow> findMessageId api fs importedId (currentOffset + 1))"

text \<open>
  The body of the loop over the sorted messages, for one imported message. The result is
  the error thrown, if any, with the state at that moment; \<open>None\<close> when the search for an
  id never ends.
\<close>

definition importMessage ::
  "message_api \<Rightarrow> string \<Rightarrow> project_state \<Rightarrow> message
    \<Rightarrow> (error option \<times> project_state) option" where
  "importMessage api loadPluginId st importedMessage =
    (let currentMessages =
           filter (\<lambda>message. map_of (alias_msg message) loadPluginId
                               = Some (id_msg importedMessage))
                  (getAll (messagesQuery st))
     in if length currentMessages > 1
        then Some (Some (JsError ''more than one message with the same alias found ''), st)
        else
         (case currentMessages of
            [currentMessage] \<Rightarrow>
              (let imported =
                     importedMessage
                       \<lparr> alias_msg := importedAlias loadPluginId (id_msg importedMessage),
                         id_msg := id_msg currentMessage \<rparr>
               in if encodeMessage api imported = encodeMessage api currentMessage
                  then Some (None, st)
                  else Some (None, mutate (Update (id_msg imported) imported) st))
          | _ \<Rightarrow>
              (case findMessageId api (nodeishFs st) (id_msg importedMessage) 0 of
                 None \<Rightarrow> None
               | Some (Inl e) \<Rightarrow> Some (Some e, st)
               | Some (Inr messsageId) \<Rightarrow>
                   Some (None,
                     mutate (Create (importedMessage
                               \<lparr> alias_msg := importedAlias loadPluginId (id_msg importedMessage),
                                 id_msg := messsageId \<rparr>)) st))))"

fun importMessages ::
  "message_api \<Rightarrow> string \<Rightarrow> project_state \<Rightarrow> message list
    \<Rightarrow> (error option \<times> project_state) option" where
  "importMessages api loadPluginId st [] = Some (None, st)"
| "importMessages api loadPluginId st (importedMessage # rest) =
    (case importMessage api loadPluginId st importedMessage of
       None \<Rightarrow> None
     | Some (Some e, st') \<Rightarrow> Some (Some e, st')
     | Some (None, st') \<Rightarrow> importMessages api loadPluginId st' rest)"

text \<open>
  What the loader reads of the resolved modules: their errors, the id of the plugin that
  has \<^verbatim>\<open>loadMessages\<close> (the result of \<^verbatim>\<open>plugins.find\<close>), and
  \<^verbatim>\<open>resolvedPluginApi.loadMessages\<close>, a function of the settings and the filesystem that
  may throw.
\<close>

record resolved_modules =
  moduleErrors :: "error list"
  loadMessagePlugin :: "string option"
  loadMessages :: "(project_settings \<Rightarrow> filesystem \<Rightarrow> error + message list) option"

definition runImport ::
  "message_api \<Rightarrow> resolved_modules \<Rightarrow> project_settings \<Rightarrow> project_state
    \<Rightarrow> (error option \<times> project_state) option" where
  "runImport api resolved settingsValue st =
    (case loadMessages resolved of
       None \<Rightarrow> Some (None, st)
     | Some load \<Rightarrow>
         (case loadMessagePlugin resolved of
            None \<Rightarrow>
              Some (Some (JsError ''Cannot read properties of undefined (reading 'id')''), st)
          | Some loadPluginId \<Rightarrow>
              (case load settingsValue (nodeishFs st) of
                 Inl e \<Rightarrow> Some (Some e, st)
               | Inr importedMessages \<Rightarrow>
                   importMessages api loadPluginId st
                     (messagesToImportSorted (localeCompare api) importedMessages))))"

subsection \<open>Loading a project\<close>

text \<open>
  The collaborators of \<^verbatim>\<open>loadProject\<close> itself. \<open>walkMessageFolder\<close> is the outcome of
  \<open>mkdir\<close> and of the recursive directory walk on the message folder.
  \<^verbatim>\<open>createNodeishFsWithAbsolutePaths\<close> is taken to hand every path on as it is given.
\<close>

record environment =
  settingsApi :: settings_api
  messageApi :: message_api
  normalizePath :: "string \<Rightarrow> string"
  isAbsolutePath :: "string \<Rightarrow> bool"
  maybeMigrateToDirectory :: "filesystem \<Rightarrow> string \<Rightarrow> error + filesystem"
  resolveModules :: "project_settings \<Rightarrow> filesystem \<Rightarrow> error + resolved_modules"
  walkMessageFolder :: "filesystem \<Rightarrow> string \<Rightarrow> fs_error + string list"

text \<open>The test of the regular expression \<^verbatim>\<open>/[^\\/]+\.inlang$/\<close>.\<close>

definition endsInInlangFolder :: "string \<Rightarrow> bool" where
  "endsInInlangFolder projectPath =
    (take 7 (rev projectPath) = rev ''.inlang''
     \<and> (case drop 7 (rev projectPath) of
          [] \<Rightarrow> False
        | c # before \<Rightarrow> c \<noteq> CHR ''/'' \<and> c \<noteq> CHR 0x5C))"

text \<open>
  The project that is returned: the list that \<^verbatim>\<open>errors\<close> reads (the initialisation
  error, if any, then the errors of the resolved modules; the parse errors of messages are
  commented out of it), the resolved modules and the state.
\<close>

record project =
  errors :: "error list"
  resolvedModules :: "resolved_modules option"
  state :: project_state

definition projectOf ::
  "error option \<Rightarrow> resolved_modules option \<Rightarrow> project_state \<Rightarrow> project" where
  "projectOf initializeError resolved st =
    \<lparr> errors =
        (case initializeError of None \<Rightarrow> [] | Some e \<Rightarrow> [e])
        @ (case resolved of None \<Rightarrow> [] | Some r \<Rightarrow> moduleErrors r),
      resolvedModules = resolved,
      state = st \<rparr>"

definition initialState :: "filesystem \<Rightarrow> project_state" where
  "initialState fs =
    \<lparr> settingsSignal = None, skipFirstInitial = False, messagesQuery = [], mutations = [],
      trackedMessages = [], nodeishFs = fs, unhandledRejections = [] \<rparr>"

text \<open>
  \<^verbatim>\<open>loadProject\<close> up to the return of the project, with the effects run in the order of
  their dependencies: settings, resolved modules, messages, then the import. \<open>Inl\<close> is an
  error thrown by \<^verbatim>\<open>loadProject\<close>; \<open>None\<close> is a promise that never settles: the loaded
  settings were refused by \<^verbatim>\<open>setSettings\<close>, whose result the loader drops, so that
  neither \<^verbatim>\<open>markInitAsComplete\<close> nor \<^verbatim>\<open>markInitAsFailed\<close> is ever called; or the search
  for a message id never ends. The writes that the import sets off are not awaited: their
  effects are run when the import is through. Watch events are not part of it: they are
  handled by \<open>handleWatchEvent\<close> on the state of the project.
\<close>

definition loadProject ::
  "environment \<Rightarrow> filesystem \<Rightarrow> string \<Rightarrow> (error + project) option" where
  "loadProject env fs0 argsProjectPath =
    (let projectPath = normalizePath env argsProjectPath in
     case maybeMigrateToDirectory env fs0 projectPath of
       Inl e \<Rightarrow> Some (Inl e)
     | Inr fs \<Rightarrow>
        if \<not> isAbsolutePath env argsProjectPath
        then Some (Inl (LoadProjectInvalidArgument
               (''Expected an absolute path but received \"'' @ argsProjectPath @ ''\".'')))
        else if \<not> endsInInlangFolder projectPath
        then Some (Inl (LoadProjectInvalidArgument
               (''Expected a path ending in \"{name}.inlang\" but received \"''
                @ projectPath @ ''\".'' @ [CHR 0x0A, CHR 0x0A] @ ''Valid examples: ''
                @ [CHR 0x0A] @ ''- \"/path/to/micky-mouse.inlang\"''
                @ [CHR 0x0A] @ ''- \"/path/to/green-elephant.inlang'' @ [CHR 0x0A])))
        else
         (let messageFolderPath = projectPath @ ''/messages'' @ ''/v1'' in
          case loadSettings (settingsApi env) fs (projectPath @ ''/settings.json'') of
            Inl err \<Rightarrow> Some (Inr (projectOf (Some err) None (initialState fs)))
          | Inr settings \<Rightarrow>
             (case setSettings (settingsApi env) projectPath (initialState fs) settings of
                Inl err \<Rightarrow> Some (Inr (projectOf (Some err) None (initialState fs)))
              | Inr (InvalidSettings errs, st1) \<Rightarrow> None
              | Inr (Data, st1) \<Rightarrow>
                 (case resolveModules env (the (settingsSignal st1)) fs of
                    Inl err \<Rightarrow> Some (Inr (projectOf (Some err) None st1))
                  | Inr resolved \<Rightarrow>
                     (let loaded = loadAndSetMessages (messageApi env) fs messageFolderPath
                                     (walkMessageFolder env fs messageFolderPath);
                          st2 = st1\<lparr> messagesQuery :=
                                  (case loaded of
                                     Inl e \<Rightarrow> []
                                   | Inr loadedMessages \<Rightarrow> storeOfMessages loadedMessages) \<rparr>;
                          st3 = trackedMessagesEffect (messageApi env) messageFolderPath st2
                      in case runImport (messageApi env) resolved
                                (the (settingsSignal st1)) st3 of
                           None \<Rightarrow> None
                         | Some (Some e, st4) \<Rightarrow> Some (Inl e)
                         | Some (None, st4) \<Rightarrow>
                             Some (Inr (projectOf
                               (case loaded of Inl e \<Rightarrow> Some e | Inr loadedMessages \<Rightarrow> None)
                               (Some resolved)
                               (foldl (\<lambda>st m. effectsAfter (messageApi env)
                                                  messageFolderPath m st)
                                  st4 (drop (length (mutations st3)) (mutations st4))))))))))"

subsection \<open>Notions for the properties of the import\<close>

text \<open>
  The messages of the query that the import matches with an imported id: the filter of
  \<open>importMessage\<close>.
\<close>

definition aliasMatches :: "string \<Rightarrow> string \<Rightarrow> message_store \<Rightarrow> message list" where
  "aliasMatches loadPluginId importedId store =
    filter (\<lambda>message. map_of (alias_msg message) loadPluginId = Some importedId)
      (getAll store)"

text \<open>
  An imported message is settled in a query when it has exactly one alias match there and
  its encoding, with the alias of the import and the id of the match, is the encoding of
  the match.
\<close>

definition settled :: "message_api \<Rightarrow> string \<Rightarrow> message_store \<Rightarrow> message \<Rightarrow> bool" where
  "settled api loadPluginId store importedMessage =
    (case aliasMatches loadPluginId (id_msg importedMessage) store of
       [currentMessage] \<Rightarrow>
         encodeMessage api
           (importedMessage
              \<lparr> alias_msg := importedAlias loadPluginId (id_msg importedMessage),
                id_msg := id_msg currentMessage \<rparr>)
         = encodeMessage api currentMessage
     | _ \<Rightarrow> False)"

text \<open>A query whose every message is kept under its own id, each id once.\<close>

definition keyedById :: "message_store \<Rightarrow> bool" where
  "keyedById store =
    (distinct (map fst store) \<and> list_all (\<lambda>(ident, message). id_msg message = ident) store)"

subsection \<open>Concrete collaborators for the examples\<close>

text \<open>
  A small codec: a message file holds the id, the aliases and the variants, separated by
  bars, each list as \<open>key=value;\<close> entries. Decoding skips leading blanks, so a file may
  hold a text that is not the encoding of the message it decodes to.
\<close>

fun splitOn :: "char \<Rightarrow> string \<Rightarrow> string list" where
  "splitOn sep [] = [[]]"
| "splitOn sep (c # cs) =
    (if c = sep then [] # splitOn sep cs
     else (case splitOn sep cs of [] \<Rightarrow> [[c]] | w # ws \<Rightarrow> (c # w) # ws))"

definition showPairs :: "(string \<times> string) list \<Rightarrow> string" where
  "showPairs kvs = concat (map (\<lambda>(k, v). k @ ''='' @ v @ '';'') kvs)"

definition readPairs :: "string \<Rightarrow> (string \<times> string) list" where
  "readPairs text =
    map (\<lambda>entry. (takeWhile (\<lambda>c. c \<noteq> CHR ''='') entry,
                   drop 1 (dropWhile (\<lambda>c. c \<noteq> CHR ''='') entry)))
        (filter (\<lambda>entry. entry \<noteq> []) (splitOn (CHR '';'') text))"

definition demoEncode :: "message \<Rightarrow> string" where
  "demoEncode m = id_msg m @ ''|'' @ showPairs (alias_msg m) @ ''|'' @ showPairs (variants m)"

definition demoParse :: "string \<Rightarrow> string \<Rightarrow> message option" where
  "demoParse path raw =
    (case splitOn (CHR ''|'') (dropWhile (\<lambda>c. c = CHR '' '') raw) of
       [i, a, v] \<Rightarrow> Some \<lparr> id_msg = i, alias_msg = readPairs a, variants = readPairs v \<rparr>
     | _ \<Rightarrow> None)"

definition demoIdFromPath :: "string \<Rightarrow> string option" where
  "demoIdFromPath path =
    (if take 5 (rev path) = rev ''.json''
     then Some (dropWhile (\<lambda>c. c = CHR ''/'') (rev (drop 5 (rev path))))
     else None)"

fun compareCodeUnits :: "string \<Rightarrow> string \<Rightarrow> int" where
  "compareCodeUnits [] [] = 0"
| "compareCodeUnits [] (b # bs) = - 1"
| "compareCodeUnits (a # as) [] = 1"
| "compareCodeUnits (a # as) (b # bs) =
    (if (of_char a :: nat) < of_char b then - 1
     else if (of_char b :: nat) < of_char a then 1
     else compareCodeUnits as bs)"

text \<open>
  The hash of the examples keeps the first letter of the imported id and counts the offset
  in \<open>x\<close>s: two ids with the same first letter collide, as two ids with the same hash do.
\<close>

definition demoApi :: message_api where
  "demoApi =
    \<lparr> parseMessage = demoParse,
      encodeMessage = demoEncode,
      encodeUndefinedThrows = False,
      getMessageIdFromPath = demoIdFromPath,
      getPathFromMessageId = (\<lambda>i. i @ ''.json''),
      humanIdHash = (\<lambda>i offset. take 1 i @ ''_'' @ replicate offset (CHR ''x'')),
      localeCompare = compareCodeUnits,
      getDirname = (\<lambda>path. rev (dropWhile (\<lambda>c. c \<noteq> CHR ''/'') (rev path))) \<rparr>"

definition demoFolder :: string where
  "demoFolder = ''/proj.inlang/messages/v1''"

definition hello :: message where
  "hello = \<lparr> id_msg = ''hello'', alias_msg = [], variants = [(''en'', ''Hi'')] \<rparr>"

text \<open>A project whose query holds the message \<open>hello\<close>, before its effect has run.\<close>

definition helloState :: "filesystem \<Rightarrow> project_state" where
  "helloState fs = (initialState fs)\<lparr> messagesQuery := [(''hello'', hello)] \<rparr>"

text \<open>
  A small settings file: the source language tag, a bar, the language tags separated by
  commas. The schema of the examples wants at least one language tag and no tag twice; the
  migration rewrites the deprecated shape that lists a tag more than once.
\<close>

definition demoJsonParse :: "string \<rightharpoonup> project_settings" where
  "demoJsonParse raw =
    (case splitOn (CHR ''|'') raw of
       [source, tags] \<Rightarrow>
         Some \<lparr> sourceLanguageTag = source,
                languageTags = filter (\<lambda>tag. tag \<noteq> []) (splitOn (CHR '','') tags),
                modules = [], messageLintRuleLevels = [] \<rparr>
     | _ \<Rightarrow> None)"

definition demoSettingsApi :: settings_api where
  "demoSettingsApi =
    \<lparr> migrateIfOutdated = (\<lambda>settings. settings\<lparr> languageTags := remdups (languageTags settings) \<rparr>),
      Check = (\<lambda>settings. languageTags settings \<noteq> [] \<and> distinct (languageTags settings)),
      Errors = (\<lambda>settings.
        if languageTags settings \<noteq> [] \<and> distinct (languageTags settings) then []
        else [\<lparr> message_err = ''Expected one or more language tags, each once'',
                value_err = join '','' (languageTags settings),
                path_err = ''/languageTags'' \<rparr>]),
      jsonParse = demoJsonParse,
      jsonStringify = (\<lambda>settings.
        sourceLanguageTag settings @ ''|'' @ join '','' (languageTags settings)) \<rparr>"

definition enDe :: project_settings where
  "enDe = \<lparr> sourceLanguageTag = ''en'', languageTags = [''en'', ''de''],
            modules = [], messageLintRuleLevels = [] \<rparr>"

definition frEnDe :: project_settings where
  "frEnDe = \<lparr> sourceLanguageTag = ''fr'', languageTags = [''en'', ''de''],
              modules = [], messageLintRuleLevels = [] \<rparr>"

text \<open>
  An environment with no plugin that loads messages, and a directory walk that knows the
  names of two message files.
\<close>

definition demoEnv :: environment where
  "demoEnv =
    \<lparr> settingsApi = demoSettingsApi,
      messageApi = demoApi,
      normalizePath = (\<lambda>path. path),
      isAbsolutePath = (\<lambda>path. take 1 path = ''/''),
      maybeMigrateToDirectory = (\<lambda>fs projectPath. Inr fs),
      resolveModules = (\<lambda>settings fs.
        Inr \<lparr> moduleErrors = [], loadMessagePlugin = None, loadMessages = None \<rparr>),
      walkMessageFolder = (\<lambda>fs messageFolderPath.
        Inr (filter (\<lambda>path. fs (messageFolderPath @ path) \<noteq> None)
               [''/hello.json'', ''/broken.json''])) \<rparr>"

text \<open>
  A project folder with its settings file and two message files, one of which does not
  decode.
\<close>

definition demoFs :: filesystem where
  "demoFs =
    [''/proj.inlang/settings.json'' \<mapsto> File ''en|en,de'',
     ''/proj.inlang/messages/v1/hello.json'' \<mapsto> File ''hello||en=Hi;'',
     ''/proj.inlang/messages/v1/broken.json'' \<mapsto> File ''garbage'']"

text \<open>
  Messages of the examples of the import: messages that a plugin gives, a message of
  the query that carries the alias \<open>greeting\<close> of the plugin \<open>plugin.x\<close> beside an alias of
  another module, two messages of the query that both carry the alias \<open>dup\<close>, and a
  message of the query, loaded from its file, whose id is the first id that the hash of the
  examples gives for \<open>greeting\<close>.
\<close>

definition greeting :: message where
  "greeting = \<lparr> id_msg = ''greeting'', alias_msg = [], variants = [(''en'', ''Hello!'')] \<rparr>"

definition goodbye :: message where
  "goodbye = \<lparr> id_msg = ''goodbye'', alias_msg = [], variants = [(''en'', ''Bye'')] \<rparr>"

definition cheers :: message where
  "cheers = \<lparr> id_msg = ''cheers'', alias_msg = [], variants = [(''en'', ''Cheers'')] \<rparr>"

definition dup :: message where
  "dup = \<lparr> id_msg = ''dup'', alias_msg = [], variants = [(''en'', ''Twice'')] \<rparr>"

definition established :: message where
  "established =
    \<lparr> id_msg = ''x1'',
      alias_msg = [(''plugin.x'', ''greeting''), (''other.app'', ''hi'')],
      variants = [(''en'', ''Hello'')] \<rparr>"

definition dupOne :: message where
  "dupOne = \<lparr> id_msg = ''d1'', alias_msg = [(''plugin.x'', ''dup'')], variants = [] \<rparr>"

definition dupTwo :: message where
  "dupTwo = \<lparr> id_msg = ''d2'', alias_msg = [(''plugin.x'', ''dup'')], variants = [] \<rparr>"

definition taken :: message where
  "taken = \<lparr> id_msg = ''g_'', alias_msg = [], variants = [(''en'', ''Old'')] \<rparr>"

definition greetingAgain :: message where
  "greetingAgain =
    \<lparr> id_msg = ''greeting'', alias_msg = [], variants = [(''en'', ''Hi there'')] \<rparr>"

text \<open>
  Resolved modules whose plugin \<open>plugin.x\<close> loads two messages with different ids, and
  resolved modules whose plugin loads two messages with the same id.
\<close>

definition twoMessages :: resolved_modules where
  "twoMessages =
    \<lparr> moduleErrors = [], loadMessagePlugin = Some ''plugin.x'',
      loadMessages = Some (\<lambda>settings fs. Inr [greeting, cheers]) \<rparr>"

definition sameIdTwice :: resolved_modules where
  "sameIdTwice =
    \<lparr> moduleErrors = [], loadMessagePlugin = Some ''plugin.x'',
      loadMessages = Some (\<lambda>settings fs. Inr [greeting, greetingAgain]) \<rparr>"

definition takenState :: project_state where
  "takenState =
    (initialState [demoFolder @ ''/g_.json'' \<mapsto> File ''g_||en=Old;''])
      \<lparr> messagesQuery := [(''g_'', taken)], trackedMessages := [''g_''] \<rparr>"

section \<open>Properties\<close>

subsection \<open>The message query\<close>

lemma get_upsert: "get (upsert store i m) i = Some m"
  by (simp add: get_def upsert_def update_conv')

lemma get_delete: "get (delete store i) i = None"
  by (simp add: get_def delete_def delete_conv')

lemma includedMessageIds_delete: "i \<notin> set (includedMessageIds (delete store i))"
  by (simp add: includedMessageIds_def delete_def delete_keys)

subsection \<open>The effects\<close>

lemma foldl_keeps:
  assumes "\<And>s x. f (g s x) = f s"
  shows "f (foldl g s xs) = f s"
  using assms by (induction xs arbitrary: s) simp_all

lemma messagesQuery_persistMessage:
  "messagesQuery (persistMessage api path message st) = messagesQuery st"
  by (simp add: persistMessage_def Let_def split: sum.splits)

lemma messagesQuery_trackedMessageEffect:
  "messagesQuery (trackedMessageEffect api folder i st) = messagesQuery st"
  by (simp add: trackedMessageEffect_def messagesQuery_persistMessage split: option.splits)

lemma messagesQuery_removeMessageFile:
  "messagesQuery (removeMessageFile api folder i st) = messagesQuery st"
  by (simp add: removeMessageFile_def split: sum.splits)

lemma messagesQuery_trackedMessagesEffect:
  "messagesQuery (trackedMessagesEffect api folder st) = messagesQuery st"
proof -
  have a: "messagesQuery (foldl (\<lambda>st messageId.
              if messageId \<in> set (trackedMessages st) then st
              else trackedMessageEffect api folder messageId st) s xs) = messagesQuery s" for s xs
    by (rule foldl_keeps) (simp add: messagesQuery_trackedMessageEffect)
  have b: "messagesQuery (foldl (\<lambda>st deletedMessage.
              (removeMessageFile api folder deletedMessage st)
                \<lparr> trackedMessages :=
                    filter (\<lambda>tracked. tracked \<noteq> deletedMessage) (trackedMessages st) \<rparr>) s xs)
            = messagesQuery s" for s xs
    by (rule foldl_keeps) (simp add: messagesQuery_removeMessageFile)
  show ?thesis
    by (simp add: trackedMessagesEffect_def Let_def a b)
qed

lemma messagesQuery_effectsAfter:
  "messagesQuery (effectsAfter api folder m st) = messagesQuery st"
  by (cases m)
     (simp_all add: messagesQuery_trackedMessagesEffect messagesQuery_trackedMessageEffect)

lemma messagesQuery_effects:
  "messagesQuery (foldl (\<lambda>st m. effectsAfter api folder m st) st ms) = messagesQuery st"
  by (rule foldl_keeps) (simp add: messagesQuery_effectsAfter)

lemma removeMessageFile_absent:
  "nodeishFs st (folder @ ''/'' @ getPathFromMessageId api i) = None
   \<Longrightarrow> removeMessageFile api folder i st
       = st\<lparr> unhandledRejections := unhandledRejections st @ [FsError ENOENT] \<rparr>"
  by (simp add: removeMessageFile_def rm_def)

lemma removeMessageFile_present:
  "nodeishFs st (folder @ ''/'' @ getPathFromMessageId api i) = Some (File content)
   \<Longrightarrow> removeMessageFile api folder i st
       = st\<lparr> nodeishFs := (nodeishFs st)(folder @ ''/'' @ getPathFromMessageId api i := None) \<rparr>"
  by (simp add: removeMessageFile_def rm_def)

text \<open>
  A tracked message that was written to the query is written to its file by the effect of
  the message.
\<close>

lemma persistMessage_writes:
  assumes "nodeishFs st path = None \<or> nodeishFs st path = Some (File content)"
      and "(if getDirname api path \<noteq> [] \<and> last (getDirname api path) = CHR ''/''
            then butlast (getDirname api path) else getDirname api path) \<noteq> path"
  shows "nodeishFs (persistMessage api path message st) path
         = Some (File (encodeMessage api message))"
proof -
  define dir where "dir = (if getDirname api path \<noteq> [] \<and> last (getDirname api path) = CHR ''/''
            then butlast (getDirname api path) else getDirname api path)"
  define fs where "fs = (case mkdir (nodeishFs st) dir of Inl e \<Rightarrow> nodeishFs st | Inr fs \<Rightarrow> fs)"
  have "dir \<noteq> path" using assms(2) by (simp add: dir_def)
  then have "fs path = nodeishFs st path"
    by (auto simp add: fs_def mkdir_def split: option.splits fs_node.splits)
  then have w: "writeFile fs path (encodeMessage api message)
      = Inr (fs(path \<mapsto> File (encodeMessage api message)))"
    using assms(1) by (auto simp add: writeFile_def)
  have "persistMessage api path message st
      = (case writeFile fs path (encodeMessage api message) of
          Inl e \<Rightarrow>
            st\<lparr> nodeishFs := fs, unhandledRejections := unhandledRejections st @ [FsError e] \<rparr>
        | Inr fs' \<Rightarrow> st\<lparr> nodeishFs := fs' \<rparr>)"
    unfolding persistMessage_def Let_def fs_def dir_def by (rule refl)
  then show ?thesis by (simp add: w)
qed

lemma trackedMessageEffect_persists:
  assumes "get (messagesQuery st) i = Some message"
      and "i \<in> set (trackedMessages st)"
  shows "trackedMessageEffect api folder i st
         = persistMessage api (folder @ ''/'' @ getPathFromMessageId api (id_msg message))
             message st"
  using assms by (simp add: trackedMessageEffect_def)

lemma nodeishFs_registration:
  "nodeishFs (foldl (\<lambda>st messageId.
                 if messageId \<in> set (trackedMessages st) then st
                 else trackedMessageEffect api folder messageId st) s xs) = nodeishFs s"
  by (rule foldl_keeps) (simp add: trackedMessageEffect_def split: option.splits)

lemma unhandledRejections_registration:
  "unhandledRejections (foldl (\<lambda>st messageId.
                 if messageId \<in> set (trackedMessages st) then st
                 else trackedMessageEffect api folder messageId st) s xs) = unhandledRejections s"
  by (rule foldl_keeps) (simp add: trackedMessageEffect_def split: option.splits)

lemma removeMessageFile_keeps_absent:
  "nodeishFs st p = None \<Longrightarrow> nodeishFs (removeMessageFile api folder d st) p = None"
  by (simp add: removeMessageFile_def rm_def split: option.splits fs_node.splits)

lemma removeMessageFile_keeps_rejections:
  "set (unhandledRejections st) \<subseteq> set (unhandledRejections (removeMessageFile api folder d st))"
  by (auto simp add: removeMessageFile_def split: sum.splits)

lemma removal_keeps_rejections:
  "e \<in> set (unhandledRejections s)
   \<Longrightarrow> e \<in> set (unhandledRejections
         (foldl (\<lambda>st deletedMessage.
                   (removeMessageFile api folder deletedMessage st)
                     \<lparr> trackedMessages :=
                         filter (\<lambda>tracked. tracked \<noteq> deletedMessage) (trackedMessages st) \<rparr>)
                s ds))"
proof (induction ds arbitrary: s)
  case Nil
  then show ?case by simp
next
  case (Cons d ds)
  have "e \<in> set (unhandledRejections (removeMessageFile api folder d s))"
    using Cons.prems removeMessageFile_keeps_rejections by blast
  then show ?case using Cons.IH by simp
qed

lemma removal_rejects:
  "i \<in> set ds \<Longrightarrow> nodeishFs s (folder @ ''/'' @ getPathFromMessageId api i) = None
   \<Longrightarrow> FsError ENOENT \<in> set (unhandledRejections
         (foldl (\<lambda>st deletedMessage.
                   (removeMessageFile api folder deletedMessage st)
                     \<lparr> trackedMessages :=
                         filter (\<lambda>tracked. tracked \<noteq> deletedMessage) (trackedMessages st) \<rparr>)
                s ds))"
proof (induction ds arbitrary: s)
  case Nil
  then show ?case by simp
next
  case (Cons d ds)
  show ?case
  proof (cases "d = i")
    case True
    have "FsError ENOENT \<in> set (unhandledRejections
            ((removeMessageFile api folder i s)
               \<lparr> trackedMessages := filter (\<lambda>tracked. tracked \<noteq> i) (trackedMessages s) \<rparr>))"
      using Cons.prems(2) by (simp add: removeMessageFile_absent)
    then show ?thesis
      using True removal_keeps_rejections by simp
  next
    case False
    then have "i \<in> set ds" using Cons.prems(1) by simp
    moreover have "nodeishFs ((removeMessageFile api folder d s)
               \<lparr> trackedMessages := filter (\<lambda>tracked. tracked \<noteq> d) (trackedMessages s) \<rparr>)
             (folder @ ''/'' @ getPathFromMessageId api i) = None"
      using Cons.prems(2) by (simp add: removeMessageFile_keeps_absent)
    ultimately show ?thesis using Cons.IH by simp
  qed
qed

text \<open>
  The removal of the file of a tracked message that has left the query, when no file is at
  the path: the failure of \<^verbatim>\<open>rm\<close> is an unhandled rejection. This is the case after
  every watch event of a deletion whose file is the file of the message, as the read of
  that file has just failed with \<^verbatim>\<open>ENOENT\<close>.
\<close>

lemma removal_of_absent_file_rejects:
  assumes "i \<in> set (trackedMessages st)"
      and "i \<notin> set (includedMessageIds (messagesQuery st))"
      and "nodeishFs st (folder @ ''/'' @ getPathFromMessageId api i) = None"
  shows "FsError ENOENT \<in> set (unhandledRejections (trackedMessagesEffect api folder st))"
proof -
  let ?ds = "filter (\<lambda>tracked. tracked \<notin> set (includedMessageIds (messagesQuery st)))
               (trackedMessages st)"
  let ?st1 = "foldl (\<lambda>st messageId.
                 if messageId \<in> set (trackedMessages st) then st
                 else trackedMessageEffect api folder messageId st)
               st (includedMessageIds (messagesQuery st))"
  have d: "i \<in> set ?ds" using assms(1,2) by simp
  have a: "nodeishFs ?st1 (folder @ ''/'' @ getPathFromMessageId api i) = None"
    using assms(3) by (simp add: nodeishFs_registration)
  show ?thesis
    using removal_rejects [OF d a] by (simp add: trackedMessagesEffect_def Let_def)
qed

subsection \<open>Watch events\<close>

text \<open>
  C10. A watched file that exists and reads as the empty string is handled as a deleted
  file is: the message with the id of the file name is deleted from the query, in the state
  with the empty file and in the state without the file alike, and the outcome does not
  depend on the decoder, which is never called.
\<close>

theorem empty_file_handled_as_deletion:
  assumes "f \<noteq> []"
      and "getMessageIdFromPath api f = Some i"
      and "i \<noteq> []"
      and "nodeishFs st (folder @ ''/'' @ f) = Some (File [])"
  shows "handleWatchEvent api folder st (Some f) = Inr (mutate (Delete i) st)
       \<and> handleWatchEvent api folder
           (st\<lparr> nodeishFs := (nodeishFs st)(folder @ ''/'' @ f := None) \<rparr>) (Some f)
           = Inr (mutate (Delete i)
                   (st\<lparr> nodeishFs := (nodeishFs st)(folder @ ''/'' @ f := None) \<rparr>))
       \<and> get (messagesQuery (mutate (Delete i) st)) i = None
       \<and> (\<forall>decode. handleWatchEvent (api\<lparr> parseMessage := decode \<rparr>) folder st (Some f)
             = handleWatchEvent api folder st (Some f))"
  using assms
  by (simp add: handleWatchEvent_def readWatchedFile_def readFile_def mutate_def get_delete)

theorem empty_file_witness:
  "handleWatchEvent demoApi demoFolder
     (helloState [demoFolder @ ''/hello.json'' \<mapsto> File []]) (Some ''hello.json'')
   = Inr (mutate (Delete ''hello'') (helloState [demoFolder @ ''/hello.json'' \<mapsto> File []]))
   \<and> get (messagesQuery
        (mutate (Delete ''hello'') (helloState [demoFolder @ ''/hello.json'' \<mapsto> File []])))
        ''hello'' = None"
proof -
  let ?st = "helloState [demoFolder @ ''/hello.json'' \<mapsto> File []]"
  have h1: "''hello.json'' \<noteq> []" by simp
  have h2: "getMessageIdFromPath demoApi ''hello.json'' = Some ''hello''"
    by (simp add: demoApi_def demoIdFromPath_def)
  have h3: "''hello'' \<noteq> []" by simp
  have h4: "nodeishFs ?st (demoFolder @ ''/'' @ ''hello.json'') = Some (File [])"
    by (simp add: helloState_def initialState_def)
  show ?thesis
    using empty_file_handled_as_deletion [OF h1 h2 h3 h4] by blast
qed

text \<open>
  C4, as stated, fails: the handler compares the encoding of the current message of the
  query with the text of the file, not with the encoding of the decoded message. The query
  holds the message \<open>hello\<close>; the text of its file decodes to \<open>hello\<close> and is not the
  encoding of \<open>hello\<close> (it has a leading blank). The message is upserted at the first
  event and again at the second, whatever the encoder does when there is no message.
\<close>

theorem watch_event_twice_counterexample:
  "\<forall>throws. \<exists>s1 s2.
      handleWatchEvent (demoApi\<lparr> encodeUndefinedThrows := throws \<rparr>) demoFolder
        (helloState [demoFolder @ ''/hello.json'' \<mapsto> File '' hello||en=Hi;''])
        (Some ''hello.json'') = Inr s1
    \<and> handleWatchEvent (demoApi\<lparr> encodeUndefinedThrows := throws \<rparr>) demoFolder s1
        (Some ''hello.json'') = Inr s2
    \<and> mutations s2 = [Upsert ''hello'' hello, Upsert ''hello'' hello]"
proof
  fix throws
  let ?api = "demoApi\<lparr> encodeUndefinedThrows := throws \<rparr>"
  let ?st = "helloState [demoFolder @ ''/hello.json'' \<mapsto> File '' hello||en=Hi;'']"
  let ?s1 = "mutate (Upsert ''hello'' hello) ?st"
  let ?s2 = "mutate (Upsert ''hello'' hello) ?s1"
  have p: "demoParse ''hello.json'' '' hello||en=Hi;'' = Some hello"
    by (simp add: demoParse_def hello_def readPairs_def)
  have e: "demoEncode hello = ''hello||en=Hi;''"
    by (simp add: demoEncode_def hello_def showPairs_def)
  have i: "demoIdFromPath ''hello.json'' = Some ''hello''"
    by (simp add: demoIdFromPath_def)
  have 1: "handleWatchEvent ?api demoFolder ?st (Some ''hello.json'') = Inr ?s1"
    by (simp add: handleWatchEvent_def readWatchedFile_def readFile_def demoApi_def p i e
        helloState_def initialState_def get_def)
  have 2: "handleWatchEvent ?api demoFolder ?s1 (Some ''hello.json'') = Inr ?s2"
    by (simp add: handleWatchEvent_def readWatchedFile_def readFile_def demoApi_def p i e
        helloState_def initialState_def get_def mutate_def upsert_def)
  have 3: "mutations ?s2 = [Upsert ''hello'' hello, Upsert ''hello'' hello]"
    by (simp add: mutate_def helloState_def initialState_def)
  show "\<exists>s1 s2.
      handleWatchEvent ?api demoFolder ?st (Some ''hello.json'') = Inr s1
    \<and> handleWatchEvent ?api demoFolder s1 (Some ''hello.json'') = Inr s2
    \<and> mutations s2 = [Upsert ''hello'' hello, Upsert ''hello'' hello]"
    using 1 2 3 by blast
qed

text \<open>
  C4, amended. Let the file name of the event give a message id that is not empty, and let
  the file read with a text that is not empty and that either does not decode or is the
  encoding of the message it decodes to. Then handling the event twice, with the file as it
  is, makes at most one call of a mutating operation of the query: the second handling
  changes nothing.
\<close>

theorem watch_event_twice_one_mutation:
  assumes "f \<noteq> []"
      and "getMessageIdFromPath api f = Some i"
      and "i \<noteq> []"
      and "readFile (nodeishFs st) (folder @ ''/'' @ f) = Inr content"
      and "content \<noteq> []"
      and "\<forall>message. parseMessage api f content = Some message
             \<longrightarrow> encodeMessage api message = content"
  shows "\<exists>s1. handleWatchEvent api folder st (Some f) = Inr s1
           \<and> handleWatchEvent api folder s1 (Some f) = Inr s1
           \<and> length (mutations s1) \<le> length (mutations st) + 1"
proof (cases "parseMessage api f content")
  case None
  then have "handleWatchEvent api folder st (Some f) = Inr st"
    using assms by (simp add: handleWatchEvent_def readWatchedFile_def)
  then show ?thesis by simp
next
  case (Some message)
  then have enc: "encodeMessage api message = content" using assms(6) by simp
  let ?up = "mutate (Upsert i message) st"
  have fs: "nodeishFs ?up = nodeishFs st" by (simp add: mutate_def)
  have cur: "get (messagesQuery ?up) i = Some message"
    by (simp add: mutate_def get_upsert)
  have again: "handleWatchEvent api folder ?up (Some f) = Inr ?up"
    using assms Some enc cur by (simp add: handleWatchEvent_def readWatchedFile_def fs)
  have len: "length (mutations ?up) = length (mutations st) + 1"
    by (simp add: mutate_def)
  have "handleWatchEvent api folder st (Some f) = Inr st
        \<and> handleWatchEvent api folder st (Some f) = Inr st
      \<or> handleWatchEvent api folder st (Some f) = Inr ?up"
    using assms Some
    by (auto simp add: handleWatchEvent_def readWatchedFile_def split: option.splits)
  then show ?thesis using again len by auto
qed

theorem watch_event_twice_witness:
  "\<exists>s1. handleWatchEvent demoApi demoFolder
           (initialState [demoFolder @ ''/hello.json'' \<mapsto> File ''hello||en=Hi;''])
           (Some ''hello.json'') = Inr s1
       \<and> handleWatchEvent demoApi demoFolder s1 (Some ''hello.json'') = Inr s1
       \<and> length (mutations s1)
           \<le> length (mutations
                (initialState [demoFolder @ ''/hello.json'' \<mapsto> File ''hello||en=Hi;''])) + 1"
proof -
  let ?st = "initialState [demoFolder @ ''/hello.json'' \<mapsto> File ''hello||en=Hi;'']"
  have h1: "''hello.json'' \<noteq> []" by simp
  have h2: "getMessageIdFromPath demoApi ''hello.json'' = Some ''hello''"
    by (simp add: demoApi_def demoIdFromPath_def)
  have h3: "''hello'' \<noteq> []" by simp
  have h4: "readFile (nodeishFs ?st) (demoFolder @ ''/'' @ ''hello.json'') = Inr ''hello||en=Hi;''"
    by (simp add: initialState_def readFile_def)
  have h5: "''hello||en=Hi;'' \<noteq> []" by simp
  have h6: "\<forall>message. parseMessage demoApi ''hello.json'' ''hello||en=Hi;'' = Some message
             \<longrightarrow> encodeMessage demoApi message = ''hello||en=Hi;''"
    by (simp add: demoApi_def demoParse_def demoEncode_def readPairs_def showPairs_def)
  show ?thesis
    by (rule watch_event_twice_one_mutation [OF h1 h2 h3 h4 h5 h6])
qed

text \<open>
  The message is deleted from the query whenever the read of the watched file fails with
  \<^verbatim>\<open>ENOENT\<close>.
\<close>

lemma watch_delete_removes_message:
  assumes "f \<noteq> []"
      and "getMessageIdFromPath api f = Some i"
      and "i \<noteq> []"
      and "readFile (nodeishFs st) (folder @ ''/'' @ f) = Inl ENOENT"
  shows "handleWatchEvent api folder st (Some f) = Inr (mutate (Delete i) st)
       \<and> get (messagesQuery (mutate (Delete i) st)) i = None"
  using assms
  by (simp add: handleWatchEvent_def readWatchedFile_def mutate_def get_delete)

text \<open>
  C9. The first part holds: a watch event for the file of a message of the query, when the
  read of the file fails with \<^verbatim>\<open>ENOENT\<close>, deletes the message, and \<open>get\<close> on its id is
  absent afterwards. The second part does not: the removal of the message file does not
  let a file that is gone pass. The query holds the message \<open>hello\<close>, its effect has
  registered it, and its file has been deleted; the watch event deletes the message, and
  the effects that run after the deletion call \<^verbatim>\<open>rm\<close> on the path of the file, which
  fails with \<^verbatim>\<open>ENOENT\<close>. The call is not awaited, so the \<^verbatim>\<open>catch\<close> that is written
  for this code is never entered, and the failure is an unhandled rejection.
\<close>

theorem watch_delete_rm_rejection_unhandled:
  "\<exists>st'. handleWatchEvent demoApi demoFolder
            (trackedMessagesEffect demoApi demoFolder (helloState Map.empty)) (Some ''hello.json'')
           = Inr st'
        \<and> get (messagesQuery st') ''hello'' = None
        \<and> unhandledRejections st' = []
        \<and> unhandledRejections (effectsAfter demoApi demoFolder (Delete ''hello'') st')
            = [FsError ENOENT]
        \<and> trackedMessages (effectsAfter demoApi demoFolder (Delete ''hello'') st') = []"
proof -
  let ?st = "trackedMessagesEffect demoApi demoFolder (helloState Map.empty)"
  let ?st' = "mutate (Delete ''hello'') ?st"
  have st: "?st = (helloState Map.empty)\<lparr> trackedMessages := [''hello''] \<rparr>"
    by (simp add: trackedMessagesEffect_def trackedMessageEffect_def helloState_def
        initialState_def includedMessageIds_def get_def)
  have ev: "handleWatchEvent demoApi demoFolder ?st (Some ''hello.json'') = Inr ?st'"
    unfolding st
    by (simp add: handleWatchEvent_def readWatchedFile_def readFile_def demoApi_def
        demoIdFromPath_def helloState_def initialState_def)
  have st': "?st' = (initialState Map.empty)
                      \<lparr> mutations := [Delete ''hello''], trackedMessages := [''hello''] \<rparr>"
    unfolding st by (simp add: mutate_def helloState_def initialState_def delete_def)
  have gone: "get (messagesQuery ?st') ''hello'' = None"
    by (simp add: mutate_def get_delete)
  have none: "unhandledRejections ?st' = []"
    unfolding st' by (simp add: initialState_def)
  have eff: "effectsAfter demoApi demoFolder (Delete ''hello'') ?st'
      = (initialState Map.empty)
          \<lparr> mutations := [Delete ''hello''], unhandledRejections := [FsError ENOENT] \<rparr>"
    unfolding st'
    by (simp add: trackedMessagesEffect_def removeMessageFile_def rm_def initialState_def
        includedMessageIds_def)
  have rej: "unhandledRejections (effectsAfter demoApi demoFolder (Delete ''hello'') ?st')
      = [FsError ENOENT]"
    unfolding eff by simp
  have tr: "trackedMessages (effectsAfter demoApi demoFolder (Delete ''hello'') ?st') = []"
    unfolding eff by (simp add: initialState_def)
  show ?thesis using ev gone none rej tr by blast
qed

subsection \<open>Settings\<close>

lemma parseSettings_accepts_iff:
  "(\<exists>validated. parseSettings api s = Inr validated)
   \<longleftrightarrow> (Check api (migrateIfOutdated api s) \<or> Errors api s = [])
       \<and> sourceLanguageTag s \<in> set (languageTags s)"
  by (auto simp add: parseSettings_def Let_def)

lemma parseSettings_rejects_invalid:
  "parseSettings api s = Inl e \<Longrightarrow> \<exists>errors. errors \<noteq> [] \<and> e = ProjectSettingsInvalidError errors"
  by (auto simp add: parseSettings_def Let_def split: if_splits)

lemma parseSettings_accepts_migrated:
  "parseSettings api s = Inr validated \<Longrightarrow> validated = migrateIfOutdated api s"
  by (auto simp add: parseSettings_def Let_def split: if_splits)

text \<open>
  C1. The schema validator and the migration are imported; two facts about them are
  assumed: the validator lists an error for exactly the values that fail its check, and the
  migration leaves a value that passes the check as it is. Then a settings value is
  accepted exactly when its migrated form passes the check of the schema and its
  \<open>sourceLanguageTag\<close> is among its \<open>languageTags\<close>: \<open>parseSettings\<close> returns the
  migrated value and \<open>setSettings\<close> commits it to the settings signal. Every other value
  is refused with a \<open>ProjectSettingsInvalidError\<close> that carries one or more errors, and
  \<open>setSettings\<close> leaves the state as it was. Loading a settings file hands the parsed
  value to \<open>parseSettings\<close>.
\<close>

theorem settings_accepted_iff_valid:
  assumes "\<forall>v. Check api v = (Errors api v = [])"
      and "\<forall>v. Check api v \<longrightarrow> migrateIfOutdated api v = v"
  shows "(if Check api (migrateIfOutdated api s) \<and> sourceLanguageTag s \<in> set (languageTags s)
          then parseSettings api s = Inr (migrateIfOutdated api s)
             \<and> (\<exists>st'. setSettings api projectPath st s = Inr (Data, st')
                      \<and> settingsSignal st' = Some (migrateIfOutdated api s))
          else (\<exists>errors. errors \<noteq> []
                  \<and> parseSettings api s = Inl (ProjectSettingsInvalidError errors)
                  \<and> setSettings api projectPath st s = Inr (InvalidSettings errors, st)))
       \<and> (\<forall>fs path raw. readFile fs path = Inr raw \<and> jsonParse api raw = Some s
             \<longrightarrow> loadSettings api fs path = parseSettings api s)"
proof -
  have errs: "\<not> Check api (migrateIfOutdated api s) \<Longrightarrow> Errors api s \<noteq> []"
  proof
    assume failed: "\<not> Check api (migrateIfOutdated api s)" and none: "Errors api s = []"
    from none have "Check api s" using assms(1) by simp
    then have "migrateIfOutdated api s = s" using assms(2) by simp
    with \<open>Check api s\<close> failed show False by simp
  qed
  have signal: "settingsSignal (writeSettingsToDisk api projectPath v (st\<lparr> settingsSignal := Some v \<rparr>)) = Some v" for v
    by (simp add: writeSettingsToDisk_def split: sum.splits)
  show ?thesis
  proof (intro conjI)
    show "if Check api (migrateIfOutdated api s) \<and> sourceLanguageTag s \<in> set (languageTags s)
          then parseSettings api s = Inr (migrateIfOutdated api s)
             \<and> (\<exists>st'. setSettings api projectPath st s = Inr (Data, st')
                      \<and> settingsSignal st' = Some (migrateIfOutdated api s))
          else (\<exists>errors. errors \<noteq> []
                  \<and> parseSettings api s = Inl (ProjectSettingsInvalidError errors)
                  \<and> setSettings api projectPath st s = Inr (InvalidSettings errors, st))"
    proof (cases "Check api (migrateIfOutdated api s)")
      case True
      then show ?thesis
        using signal by (simp add: parseSettings_def setSettings_def Let_def)
    next
      case False
      then show ?thesis
        using errs by (simp add: parseSettings_def setSettings_def Let_def)
    qed
    show "\<forall>fs path raw. readFile fs path = Inr raw \<and> jsonParse api raw = Some s
             \<longrightarrow> loadSettings api fs path = parseSettings api s"
      by (simp add: loadSettings_def)
  qed
qed

theorem settings_accepted_witness:
  "parseSettings demoSettingsApi enDe = Inr enDe
   \<and> (\<exists>st'. setSettings demoSettingsApi ''/proj.inlang'' (initialState Map.empty) enDe = Inr (Data, st')
          \<and> settingsSignal st' = Some enDe)
   \<and> (\<exists>errors. errors \<noteq> []
          \<and> parseSettings demoSettingsApi frEnDe = Inl (ProjectSettingsInvalidError errors)
          \<and> setSettings demoSettingsApi ''/proj.inlang'' (initialState Map.empty) frEnDe
              = Inr (InvalidSettings errors, initialState Map.empty))"
proof -
  have c: "\<forall>v. Check demoSettingsApi v = (Errors demoSettingsApi v = [])"
    by (simp add: demoSettingsApi_def)
  have m: "\<forall>v. Check demoSettingsApi v \<longrightarrow> migrateIfOutdated demoSettingsApi v = v"
    by (simp add: demoSettingsApi_def distinct_remdups_id)
  have mig: "migrateIfOutdated demoSettingsApi enDe = enDe"
    by (simp add: demoSettingsApi_def enDe_def)
  have ok: "Check demoSettingsApi (migrateIfOutdated demoSettingsApi enDe)
            \<and> sourceLanguageTag enDe \<in> set (languageTags enDe)"
    by (simp add: demoSettingsApi_def enDe_def)
  have bad: "\<not> (Check demoSettingsApi (migrateIfOutdated demoSettingsApi frEnDe)
            \<and> sourceLanguageTag frEnDe \<in> set (languageTags frEnDe))"
    by (simp add: frEnDe_def)
  show ?thesis
    using settings_accepted_iff_valid [OF c m, of enDe "''/proj.inlang''" "initialState Map.empty"]
      settings_accepted_iff_valid [OF c m, of frEnDe "''/proj.inlang''" "initialState Map.empty"]
      ok bad mig
    by simp
qed

text \<open>
  C8, as stated, fails twice. \<open>loadSettings\<close> throws \<open>ProjectSettingsFileNotFoundError\<close>
  for every failed read, here of a settings file that is there and may not be read. And a
  missing settings file does not make \<open>loadProject\<close> fail: the project is returned, with
  the error first in its list of errors.
\<close>

theorem settings_not_found_counterexample:
  "[''/proj.inlang/settings.json'' \<mapsto> Denied] ''/proj.inlang/settings.json'' \<noteq> None
   \<and> loadSettings demoSettingsApi [''/proj.inlang/settings.json'' \<mapsto> Denied]
        ''/proj.inlang/settings.json''
       = Inl (ProjectSettingsFileNotFoundError EACCES ''/proj.inlang/settings.json'')
   \<and> (\<exists>loaded. loadProject demoEnv Map.empty ''/proj.inlang'' = Some (Inr loaded))"
  by (simp add: loadSettings_def readFile_def loadProject_def demoEnv_def endsInInlangFolder_def)

text \<open>
  C8, amended. \<open>loadSettings\<close> fails with \<open>ProjectSettingsFileNotFoundError\<close> exactly when
  the read of the settings file fails, whatever the cause, and with
  \<open>ProjectSettingsFileJSONSyntaxError\<close> exactly when the file is read and its text does not
  parse as JSON. When the settings file is missing, \<open>loadProject\<close> (given an absolute path
  that ends in \<open>.inlang\<close>) does not throw: it returns a project with no resolved modules
  whose list of errors is the one \<open>ProjectSettingsFileNotFoundError\<close>.
\<close>

theorem loadSettings_errors:
  "((\<exists>cause path. loadSettings api fs settingsFilePath
        = Inl (ProjectSettingsFileNotFoundError cause path))
     \<longleftrightarrow> (\<exists>e. readFile fs settingsFilePath = Inl e))
   \<and> ((\<exists>path. loadSettings api fs settingsFilePath = Inl (ProjectSettingsFileJSONSyntaxError path))
     \<longleftrightarrow> (\<exists>settingsFile. readFile fs settingsFilePath = Inr settingsFile
            \<and> jsonParse api settingsFile = None))
   \<and> (maybeMigrateToDirectory env fs0 (normalizePath env projectPath) = Inr fs
      \<and> isAbsolutePath env projectPath
      \<and> endsInInlangFolder (normalizePath env projectPath)
      \<and> fs (normalizePath env projectPath @ ''/settings.json'') = None
      \<longrightarrow> (\<exists>loaded. loadProject env fs0 projectPath = Some (Inr loaded)
             \<and> errors loaded = [ProjectSettingsFileNotFoundError ENOENT
                                  (normalizePath env projectPath @ ''/settings.json'')]
             \<and> resolvedModules loaded = None))"
proof (intro conjI)
  show "(\<exists>cause path. loadSettings api fs settingsFilePath
          = Inl (ProjectSettingsFileNotFoundError cause path))
        \<longleftrightarrow> (\<exists>e. readFile fs settingsFilePath = Inl e)"
    using parseSettings_rejects_invalid [of api]
    by (auto simp add: loadSettings_def split: sum.splits option.splits)
  show "(\<exists>path. loadSettings api fs settingsFilePath = Inl (ProjectSettingsFileJSONSyntaxError path))
        \<longleftrightarrow> (\<exists>settingsFile. readFile fs settingsFilePath = Inr settingsFile
              \<and> jsonParse api settingsFile = None)"
    using parseSettings_rejects_invalid [of api]
    by (auto simp add: loadSettings_def split: sum.splits option.splits)
  show "maybeMigrateToDirectory env fs0 (normalizePath env projectPath) = Inr fs
      \<and> isAbsolutePath env projectPath
      \<and> endsInInlangFolder (normalizePath env projectPath)
      \<and> fs (normalizePath env projectPath @ ''/settings.json'') = None
      \<longrightarrow> (\<exists>loaded. loadProject env fs0 projectPath = Some (Inr loaded)
             \<and> errors loaded = [ProjectSettingsFileNotFoundError ENOENT
                                  (normalizePath env projectPath @ ''/settings.json'')]
             \<and> resolvedModules loaded = None)"
    by (simp add: loadProject_def Let_def loadSettings_def readFile_def projectOf_def)
qed

theorem loadSettings_errors_witness:
  "\<exists>loaded. loadProject demoEnv Map.empty ''/proj.inlang'' = Some (Inr loaded)
      \<and> errors loaded = [ProjectSettingsFileNotFoundError ENOENT ''/proj.inlang/settings.json'']
      \<and> resolvedModules loaded = None"
proof -
  have h: "maybeMigrateToDirectory demoEnv Map.empty (normalizePath demoEnv ''/proj.inlang'')
             = Inr Map.empty
      \<and> isAbsolutePath demoEnv ''/proj.inlang''
      \<and> endsInInlangFolder (normalizePath demoEnv ''/proj.inlang'')
      \<and> Map.empty (normalizePath demoEnv ''/proj.inlang'' @ ''/settings.json'') = None"
    by (simp add: demoEnv_def endsInInlangFolder_def)
  have n: "normalizePath demoEnv ''/proj.inlang'' = ''/proj.inlang''"
    by (simp add: demoEnv_def)
  show ?thesis
    using loadSettings_errors [of demoSettingsApi Map.empty "''x''" demoEnv Map.empty
        "''/proj.inlang''"] h n
    by simp
qed

subsection \<open>Initial load\<close>

lemma loadMessageFiles_append:
  "loadMessageFiles api fs folder (before @ after)
   = loadMessageFiles api fs folder before @ loadMessageFiles api fs folder after"
  by (induction before) (auto split: option.splits sum.splits)

lemma loadMessageFiles_undecodable:
  "readFile fs (folder @ path) = Inr raw \<Longrightarrow> parseMessage api path raw = None
   \<Longrightarrow> loadMessageFiles api fs folder (path # after) = loadMessageFiles api fs folder after"
  by (simp split: option.splits)

text \<open>
  C6, as stated, fails in its last part: the \<^verbatim>\<open>catch\<close> of the loop body is empty and
  the parse errors are commented out of the list of errors, so the error of a file that
  does not decode is recorded nowhere. Here the project loads, holds the message of the
  other file, and has no error.
\<close>

theorem decode_failure_counterexample:
  "parseMessage (messageApi demoEnv) ''/broken.json'' ''garbage'' = None
   \<and> (\<exists>loaded. loadProject demoEnv demoFs ''/proj.inlang'' = Some (Inr loaded)
         \<and> messagesQuery (state loaded) = [(''hello'', hello)]
         \<and> errors loaded = [])"
proof -
  have p: "demoParse ''/hello.json'' ''hello||en=Hi;'' = Some hello"
    by (simp add: demoParse_def hello_def readPairs_def)
  have b: "demoParse ''/broken.json'' ''garbage'' = None"
    by (simp add: demoParse_def)
  have j: "demoJsonParse ''en|en,de'' = Some enDe"
    by (simp add: demoJsonParse_def enDe_def)
  have s: "parseSettings demoSettingsApi enDe = Inr enDe"
    by (simp add: parseSettings_def demoSettingsApi_def enDe_def)
  have rd: "readFile demoFs ''/proj.inlang/settings.json'' = Inr ''en|en,de''"
    by (simp add: readFile_def demoFs_def)
  have jp: "jsonParse demoSettingsApi = demoJsonParse"
    by (simp add: demoSettingsApi_def)
  have l: "loadSettings demoSettingsApi demoFs ''/proj.inlang/settings.json'' = Inr enDe"
    by (simp add: loadSettings_def rd jp j s)
  have ss: "setSettings demoSettingsApi ''/proj.inlang'' (initialState demoFs) enDe
      = Inr (Data, (initialState demoFs)\<lparr> settingsSignal := Some enDe, skipFirstInitial := True \<rparr>)"
    by (simp add: setSettings_def s writeSettingsToDisk_def initialState_def)
  have i1: "demoIdFromPath ''/hello.json'' = Some ''hello''"
    by (simp add: demoIdFromPath_def)
  have i2: "demoIdFromPath ''/broken.json'' = Some ''broken''"
    by (simp add: demoIdFromPath_def)
  have w: "walkMessageFolder demoEnv demoFs ''/proj.inlang/messages/v1''
      = Inr [''/hello.json'', ''/broken.json'']"
    by (simp add: demoEnv_def demoFs_def)
  have lm: "loadMessageFiles demoApi demoFs ''/proj.inlang/messages/v1''
        [''/hello.json'', ''/broken.json''] = [hello]"
    by (simp add: demoApi_def i1 i2 p b readFile_def demoFs_def)
  have e: "messageApi demoEnv = demoApi" "settingsApi demoEnv = demoSettingsApi"
    "normalizePath demoEnv ''/proj.inlang'' = ''/proj.inlang''"
    "isAbsolutePath demoEnv ''/proj.inlang''"
    "maybeMigrateToDirectory demoEnv demoFs ''/proj.inlang'' = Inr demoFs"
    "resolveModules demoEnv enDe demoFs
       = Inr \<lparr> moduleErrors = [], loadMessagePlugin = None, loadMessages = None \<rparr>"
    by (simp_all add: demoEnv_def)
  have f: "endsInInlangFolder ''/proj.inlang''"
    by (simp add: endsInInlangFolder_def)
  have h: "id_msg hello = ''hello''"
    by (simp add: hello_def)
  have "\<exists>loaded. loadProject demoEnv demoFs ''/proj.inlang'' = Some (Inr loaded)
         \<and> messagesQuery (state loaded) = [(''hello'', hello)]
         \<and> errors loaded = []"
    by (simp add: loadProject_def e f l ss w lm h loadAndSetMessages_def storeOfMessages_def
        upsert_def runImport_def projectOf_def messagesQuery_trackedMessagesEffect Let_def
        del: loadMessageFiles.simps)
  then show ?thesis using b by (simp add: e demoApi_def)
qed

text \<open>
  C6, amended. During the initial load a message file that does not decode is skipped: the
  load completes with the messages of the other files, as if the file were not there; its
  error is dropped, and the project that \<open>loadProject\<close> gives, its list of errors
  included, is the one it gives when the directory walk does not list the file.
\<close>

theorem decode_failure_is_skipped:
  assumes "maybeMigrateToDirectory env fs0 (normalizePath env projectPath) = Inr fs"
      and "readFile fs (normalizePath env projectPath @ ''/messages'' @ ''/v1'' @ path) = Inr raw"
      and "parseMessage (messageApi env) path raw = None"
  shows "loadAndSetMessages (messageApi env) fs (normalizePath env projectPath @ ''/messages'' @ ''/v1'')
           (Inr (before @ path # after))
         = Inr (loadMessageFiles (messageApi env) fs
                  (normalizePath env projectPath @ ''/messages'' @ ''/v1'') before
                @ loadMessageFiles (messageApi env) fs
                  (normalizePath env projectPath @ ''/messages'' @ ''/v1'') after)
       \<and> loadProject (env\<lparr> walkMessageFolder := (\<lambda>fs folder. Inr (before @ path # after)) \<rparr>)
           fs0 projectPath
         = loadProject (env\<lparr> walkMessageFolder := (\<lambda>fs folder. Inr (before @ after)) \<rparr>)
           fs0 projectPath"
proof -
  let ?folder = "normalizePath env projectPath @ ''/messages'' @ ''/v1''"
  have "loadMessageFiles (messageApi env) fs ?folder (path # after)
        = loadMessageFiles (messageApi env) fs ?folder after"
    using assms(2,3) by (simp split: option.splits)
  then have skip: "loadMessageFiles (messageApi env) fs ?folder (before @ path # after)
        = loadMessageFiles (messageApi env) fs ?folder (before @ after)"
    by (simp only: loadMessageFiles_append)
  then have same: "loadAndSetMessages (messageApi env) fs ?folder (Inr (before @ path # after))
        = loadAndSetMessages (messageApi env) fs ?folder (Inr (before @ after))"
    by (simp add: loadAndSetMessages_def)
  have first: "loadAndSetMessages (messageApi env) fs ?folder (Inr (before @ path # after))
         = Inr (loadMessageFiles (messageApi env) fs ?folder before
                @ loadMessageFiles (messageApi env) fs ?folder after)"
    using skip by (simp add: loadAndSetMessages_def loadMessageFiles_append)
  have second: "loadProject (env\<lparr> walkMessageFolder := (\<lambda>fs folder. Inr (before @ path # after)) \<rparr>)
           fs0 projectPath
         = loadProject (env\<lparr> walkMessageFolder := (\<lambda>fs folder. Inr (before @ after)) \<rparr>)
           fs0 projectPath"
    using assms(1) same
    by (simp add: loadProject_def Let_def
        split: sum.splits option.splits prod.splits settings_result.splits)
  show ?thesis using first second by blast
qed

theorem decode_failure_witness:
  "loadAndSetMessages demoApi demoFs ''/proj.inlang/messages/v1''
     (Inr ([''/hello.json''] @ ''/broken.json'' # []))
   = Inr (loadMessageFiles demoApi demoFs ''/proj.inlang/messages/v1'' [''/hello.json''])
   \<and> loadProject (demoEnv\<lparr> walkMessageFolder :=
                      (\<lambda>fs folder. Inr ([''/hello.json''] @ ''/broken.json'' # [])) \<rparr>)
         demoFs ''/proj.inlang''
     = loadProject (demoEnv\<lparr> walkMessageFolder := (\<lambda>fs folder. Inr ([''/hello.json''] @ [])) \<rparr>)
         demoFs ''/proj.inlang''"
proof -
  have h1: "maybeMigrateToDirectory demoEnv demoFs (normalizePath demoEnv ''/proj.inlang'')
      = Inr demoFs"
    by (simp add: demoEnv_def)
  have h2: "readFile demoFs (normalizePath demoEnv ''/proj.inlang'' @ ''/messages'' @ ''/v1''
              @ ''/broken.json'') = Inr ''garbage''"
    by (simp add: demoEnv_def readFile_def demoFs_def)
  have h3: "parseMessage (messageApi demoEnv) ''/broken.json'' ''garbage'' = None"
    by (simp add: demoEnv_def demoApi_def demoParse_def)
  have e: "messageApi demoEnv = demoApi"
    "normalizePath demoEnv ''/proj.inlang'' = ''/proj.inlang''"
    by (simp_all add: demoEnv_def)
  show ?thesis
    using decode_failure_is_skipped [OF h1 h2 h3, of "[''/hello.json'']" "[]"]
    by (simp add: e del: loadMessageFiles.simps(2))
qed

subsection \<open>The search for a message id\<close>

lemma findMessageId_free:
  "stat fs (getPathFromMessageId api (humanIdHash api importedId k)) = Inl ENOENT
   \<Longrightarrow> findMessageId api fs importedId k = Some (Inr (humanIdHash api importedId k))"
  by (subst findMessageId.simps) simp

lemma findMessageId_taken:
  "stat fs (getPathFromMessageId api (humanIdHash api importedId k)) = Inr node
   \<Longrightarrow> findMessageId api fs importedId k = findMessageId api fs importedId (k + 1)"
  by (subst findMessageId.simps) simp

text \<open>
  The search for a message id ends, with an id or with the error of \<open>stat\<close>, as soon as
  \<open>stat\<close> fails on the path of some offset from the current one on.
\<close>

lemma findMessageId_returns:
  "stat fs (getPathFromMessageId api (humanIdHash api importedId (k + n))) = Inl e
   \<Longrightarrow> findMessageId api fs importedId k \<noteq> None"
proof (induction n arbitrary: k)
  case 0
  then show ?case by (subst findMessageId.simps) simp
next
  case (Suc n)
  show ?case
  proof (cases "stat fs (getPathFromMessageId api (humanIdHash api importedId k))")
    case (Inl e')
    then show ?thesis by (subst findMessageId.simps) simp
  next
    case (Inr node)
    then show ?thesis
      using Suc.IH [of "k + 1"] Suc.prems by (simp add: findMessageId_taken)
  qed
qed

text \<open>
  The id that the search returns is the hash of the imported id at some offset from the
  start on, and \<open>stat\<close> finds nothing at the path \<open>getPathFromMessageId\<close> gives for it.
\<close>

lemma findMessageId_sound:
  assumes "findMessageId api fs importedId k = Some result"
  shows "\<forall>messageId. result = Inr messageId
           \<longrightarrow> stat fs (getPathFromMessageId api messageId) = Inl ENOENT
             \<and> (\<exists>n. messageId = humanIdHash api importedId (k + n))"
proof (rule findMessageId.raw_induct
    [where P = "\<lambda>api fs importedId k result. \<forall>messageId. result = Inr messageId
           \<longrightarrow> stat fs (getPathFromMessageId api messageId) = Inl ENOENT
             \<and> (\<exists>n. messageId = humanIdHash api importedId (k + n))", OF _ assms])
  fix f api fs importedId currentOffset result
  assume ih: "\<And>api fs importedId k result. f api fs importedId k = Some result \<Longrightarrow>
      \<forall>messageId. result = Inr messageId
           \<longrightarrow> stat fs (getPathFromMessageId api messageId) = Inl ENOENT
             \<and> (\<exists>n. messageId = humanIdHash api importedId (k + n))"
    and eq: "(case stat fs (getPathFromMessageId api (humanIdHash api importedId currentOffset)) of
       Inl e \<Rightarrow>
         if e = ENOENT then Some (Inr (humanIdHash api importedId currentOffset))
         else Some (Inl (FsError e))
     | Inr node \<Rightarrow> f api fs importedId (currentOffset + 1)) = Some result"
  show "\<forall>messageId. result = Inr messageId
           \<longrightarrow> stat fs (getPathFromMessageId api messageId) = Inl ENOENT
             \<and> (\<exists>n. messageId = humanIdHash api importedId (currentOffset + n))"
  proof (cases "stat fs (getPathFromMessageId api (humanIdHash api importedId currentOffset))")
    case (Inl e)
    show ?thesis
    proof (cases "e = ENOENT")
      case True
      then have "result = Inr (humanIdHash api importedId currentOffset)"
        using eq Inl by simp
      moreover have "humanIdHash api importedId currentOffset
          = humanIdHash api importedId (currentOffset + 0)" by simp
      ultimately show ?thesis using Inl True by blast
    next
      case False
      then have "result = Inl (FsError e)"
        using eq Inl by simp
      then show ?thesis by simp
    qed
  next
    case (Inr node)
    then have "f api fs importedId (currentOffset + 1) = Some result"
      using eq by simp
    from ih [OF this] have ih': "\<forall>messageId. result = Inr messageId
           \<longrightarrow> stat fs (getPathFromMessageId api messageId) = Inl ENOENT
             \<and> (\<exists>n. messageId = humanIdHash api importedId (currentOffset + 1 + n))" .
    show ?thesis
    proof (intro allI impI)
      fix messageId assume "result = Inr messageId"
      with ih' obtain n where "stat fs (getPathFromMessageId api messageId) = Inl ENOENT"
        and "messageId = humanIdHash api importedId (currentOffset + 1 + n)" by blast
      then show "stat fs (getPathFromMessageId api messageId) = Inl ENOENT
             \<and> (\<exists>n. messageId = humanIdHash api importedId (currentOffset + n))"
        by (intro conjI exI [of _ "1 + n"]) (simp_all add: add.assoc)
    qed
  qed
qed

theorem findMessageId_returns_witness:
  "findMessageId demoApi [''g_.json'' \<mapsto> File []] ''greeting'' 0 \<noteq> None"
proof -
  have "stat [''g_.json'' \<mapsto> File []]
          (getPathFromMessageId demoApi (humanIdHash demoApi ''greeting'' (0 + 1))) = Inl ENOENT"
    by (simp add: stat_def demoApi_def)
  then show ?thesis by (rule findMessageId_returns)
qed

theorem findMessageId_sound_witness:
  "findMessageId demoApi [''g_.json'' \<mapsto> File []] ''greeting'' 0 = Some (Inr ''g_x'')
   \<and> stat [''g_.json'' \<mapsto> File []] (getPathFromMessageId demoApi ''g_x'') = Inl ENOENT
   \<and> (\<exists>n. ''g_x'' = humanIdHash demoApi ''greeting'' (0 + n))"
proof -
  let ?fs = "[''g_.json'' \<mapsto> File []]"
  have t: "stat ?fs (getPathFromMessageId demoApi (humanIdHash demoApi ''greeting'' 0))
      = Inr (File [])"
    by (simp add: stat_def demoApi_def)
  have f: "stat ?fs (getPathFromMessageId demoApi (humanIdHash demoApi ''greeting'' (0 + 1)))
      = Inl ENOENT"
    by (simp add: stat_def demoApi_def)
  have h: "humanIdHash demoApi ''greeting'' (0 + 1) = ''g_x''"
    by (simp add: demoApi_def)
  have found: "findMessageId demoApi ?fs ''greeting'' 0 = Some (Inr ''g_x'')"
    using findMessageId_taken [OF t] findMessageId_free [OF f] h by simp
  show ?thesis
    using findMessageId_sound [OF found] found by blast
qed

subsection \<open>Import\<close>

lemma map_of_importedAlias:
  "map_of (importedAlias loadPluginId importedId) key
   = (if key = loadPluginId \<or> key = ''library.inlang.paraglideJs'' then Some importedId else None)"
  by (simp add: importedAlias_def update_conv')

lemma importMessages_append:
  "importMessages api loadPluginId st (before @ after)
   = (case importMessages api loadPluginId st before of
        None \<Rightarrow> None
      | Some (Some e, st') \<Rightarrow> Some (Some e, st')
      | Some (None, st') \<Rightarrow> importMessages api loadPluginId st' after)"
  by (induction before arbitrary: st) (auto split: option.splits prod.splits)

text \<open>
  What the branch of one match does. The imported message gets the alias with the two
  entries that a new message gets (the id that the plugin gave, under the id of the loading
  plugin and under \<open>library.inlang.paraglideJs\<close>; on the entry of the loading plugin this
  agrees with the existing message) and the id of the existing message; the query is
  updated under that id, with the imported message, only if the encodings of the two
  differ, and nothing is changed otherwise.
\<close>

lemma import_updates_in_place:
  assumes "filter (\<lambda>message. map_of (alias_msg message) loadPluginId
                                = Some (id_msg importedMessage))
             (getAll (messagesQuery st)) = [currentMessage]"
  shows "importMessage api loadPluginId st importedMessage
         = Some (None,
             if encodeMessage api
                  (importedMessage
                     \<lparr> alias_msg := importedAlias loadPluginId (id_msg importedMessage),
                       id_msg := id_msg currentMessage \<rparr>)
                = encodeMessage api currentMessage
             then st
             else mutate (Update (id_msg currentMessage)
                    (importedMessage
                       \<lparr> alias_msg := importedAlias loadPluginId (id_msg importedMessage),
                         id_msg := id_msg currentMessage \<rparr>)) st)
       \<and> (\<forall>key. map_of (importedAlias loadPluginId (id_msg importedMessage)) key
             = (if key = loadPluginId \<or> key = ''library.inlang.paraglideJs''
                then Some (id_msg importedMessage) else None))
       \<and> map_of (alias_msg currentMessage) loadPluginId
           = map_of (importedAlias loadPluginId (id_msg importedMessage)) loadPluginId"
proof -
  have "currentMessage \<in> set (filter (\<lambda>message. map_of (alias_msg message) loadPluginId
                                = Some (id_msg importedMessage)) (getAll (messagesQuery st)))"
    using assms by simp
  then have cur: "map_of (alias_msg currentMessage) loadPluginId = Some (id_msg importedMessage)"
    by simp
  have step: "importMessage api loadPluginId st importedMessage
         = Some (None,
             if encodeMessage api
                  (importedMessage
                     \<lparr> alias_msg := importedAlias loadPluginId (id_msg importedMessage),
                       id_msg := id_msg currentMessage \<rparr>)
                = encodeMessage api currentMessage
             then st
             else mutate (Update (id_msg currentMessage)
                    (importedMessage
                       \<lparr> alias_msg := importedAlias loadPluginId (id_msg importedMessage),
                         id_msg := id_msg currentMessage \<rparr>)) st)"
    using assms by (simp add: importMessage_def Let_def)
  show ?thesis
    using step cur by (simp add: map_of_importedAlias)
qed

lemma import_updates_in_place_example:
  "importMessage demoApi ''plugin.x''
     ((initialState Map.empty)\<lparr> messagesQuery := [(''x1'', established)] \<rparr>) greeting
   = Some (None,
       mutate (Update ''x1''
                 (greeting\<lparr> alias_msg := importedAlias ''plugin.x'' ''greeting'',
                            id_msg := ''x1'' \<rparr>))
         ((initialState Map.empty)\<lparr> messagesQuery := [(''x1'', established)] \<rparr>))"
proof -
  let ?st = "(initialState Map.empty)\<lparr> messagesQuery := [(''x1'', established)] \<rparr>"
  let ?imported = "greeting\<lparr> alias_msg := importedAlias ''plugin.x'' ''greeting'', id_msg := ''x1'' \<rparr>"
  have m: "filter (\<lambda>message. map_of (alias_msg message) ''plugin.x'' = Some (id_msg greeting))
     (getAll (messagesQuery ?st)) = [established]"
    by (simp add: getAll_def established_def greeting_def initialState_def)
  have enc: "encodeMessage demoApi ?imported \<noteq> encodeMessage demoApi established"
    by (simp add: demoApi_def demoEncode_def greeting_def established_def importedAlias_def
        showPairs_def)
  have i: "id_msg greeting = ''greeting''" "id_msg established = ''x1''"
    by (simp_all add: greeting_def established_def)
  show ?thesis
    using import_updates_in_place [OF m, of demoApi] enc by (simp add: i)
qed

text \<open>
  C7. The branch of one match keeps the id of the message that is in the query, and it
  writes to the query only when the encodings differ; but it does not leave the alias of
  that message as it is, as the comment at the branch and the claim have it. The alias of
  the imported message is built anew from the id that the plugin gave, and the update
  writes it over the alias of the existing message, whose other entries are lost: here the
  entry of \<open>other.app\<close>.
\<close>

theorem import_update_overwrites_alias:
  "filter (\<lambda>message. map_of (alias_msg message) ''plugin.x'' = Some (id_msg greeting))
     (getAll [(''x1'', established)]) = [established]
   \<and> map_of (alias_msg established) ''other.app'' = Some ''hi''
   \<and> (\<exists>st' updated.
        importMessage demoApi ''plugin.x''
          ((initialState Map.empty)\<lparr> messagesQuery := [(''x1'', established)] \<rparr>) greeting
          = Some (None, st')
      \<and> mutations st' = [Update ''x1'' updated]
      \<and> get (messagesQuery st') ''x1'' = Some updated
      \<and> id_msg updated = id_msg established
      \<and> alias_msg updated
          = [(''plugin.x'', ''greeting''), (''library.inlang.paraglideJs'', ''greeting'')]
      \<and> map_of (alias_msg updated) ''other.app'' = None)"
proof -
  let ?st = "(initialState Map.empty)\<lparr> messagesQuery := [(''x1'', established)] \<rparr>"
  let ?imported = "greeting\<lparr> alias_msg := importedAlias ''plugin.x'' ''greeting'', id_msg := ''x1'' \<rparr>"
  have m: "filter (\<lambda>message. map_of (alias_msg message) ''plugin.x'' = Some (id_msg greeting))
     (getAll [(''x1'', established)]) = [established]"
    by (simp add: getAll_def established_def greeting_def)
  have o: "map_of (alias_msg established) ''other.app'' = Some ''hi''"
    by (simp add: established_def)
  have enc: "demoEncode ?imported \<noteq> demoEncode established"
    by (simp add: demoEncode_def greeting_def established_def importedAlias_def showPairs_def)
  have step: "importMessage demoApi ''plugin.x'' ?st greeting
      = Some (None, mutate (Update ''x1'' ?imported) ?st)"
    using m enc
    by (simp add: importMessage_def Let_def demoApi_def initialState_def)
       (simp add: greeting_def established_def)
  have l: "mutations (mutate (Update ''x1'' ?imported) ?st) = [Update ''x1'' ?imported]"
    by (simp add: mutate_def initialState_def)
  have g: "get (messagesQuery (mutate (Update ''x1'' ?imported) ?st)) ''x1'' = Some ?imported"
    by (simp add: mutate_def update_def get_def initialState_def)
  have k: "id_msg ?imported = id_msg established"
    by (simp add: established_def)
  have a: "alias_msg ?imported
      = [(''plugin.x'', ''greeting''), (''library.inlang.paraglideJs'', ''greeting'')]"
    by (simp add: importedAlias_def)
  have d: "map_of (alias_msg ?imported) ''other.app'' = None"
    by (simp add: map_of_importedAlias)
  show ?thesis using m o step l g k a d by blast
qed

text \<open>
  C3, as stated, fails: the duplicate alias is found only when the loop reaches the
  imported message with that id, and the mutations of the messages that sort before it
  have been applied by then. Here the plugin gives \<open>dup\<close> and \<open>cheers\<close>; \<open>cheers\<close> sorts
  first and is created before the import throws.
\<close>

theorem duplicate_alias_counterexample:
  "\<exists>st'. runImport demoApi
            \<lparr> moduleErrors = [], loadMessagePlugin = Some ''plugin.x'',
              loadMessages = Some (\<lambda>settings fs. Inr [dup, cheers]) \<rparr>
            enDe
            ((initialState Map.empty)\<lparr> messagesQuery := [(''d1'', dupOne), (''d2'', dupTwo)] \<rparr>)
          = Some (Some (JsError ''more than one message with the same alias found ''), st')
        \<and> mutations st'
            = [Create (cheers\<lparr> alias_msg := importedAlias ''plugin.x'' ''cheers'',
                                id_msg := ''c_'' \<rparr>)]
        \<and> messagesQuery st' \<noteq> [(''d1'', dupOne), (''d2'', dupTwo)]"
proof -
  let ?st = "(initialState Map.empty)\<lparr> messagesQuery := [(''d1'', dupOne), (''d2'', dupTwo)] \<rparr>"
  let ?created = "cheers\<lparr> alias_msg := importedAlias ''plugin.x'' ''cheers'', id_msg := ''c_'' \<rparr>"
  have sorted: "messagesToImportSorted compareCodeUnits [dup, cheers] = [cheers, dup]"
    by (simp add: messagesToImportSorted_def dup_def cheers_def)
  have free: "findMessageId demoApi Map.empty ''cheers'' 0 = Some (Inr ''c_'')"
    using findMessageId_free [of Map.empty demoApi "''cheers''" 0]
    by (simp add: stat_def demoApi_def)
  have none: "filter (\<lambda>message. map_of (alias_msg message) ''plugin.x'' = Some (id_msg cheers))
      (getAll (messagesQuery ?st)) = []"
    by (simp add: getAll_def initialState_def dupOne_def dupTwo_def cheers_def)
  have first: "importMessage demoApi ''plugin.x'' ?st cheers
      = Some (None, mutate (Create ?created) ?st)"
    using none free
    by (simp add: importMessage_def Let_def) (simp add: cheers_def initialState_def)
  have two: "filter (\<lambda>message. map_of (alias_msg message) ''plugin.x'' = Some (id_msg dup))
      (getAll (messagesQuery (mutate (Create ?created) ?st))) = [dupOne, dupTwo]"
    by (simp add: getAll_def initialState_def mutate_def create_def dupOne_def dupTwo_def
        cheers_def dup_def importedAlias_def)
  have second: "importMessage demoApi ''plugin.x'' (mutate (Create ?created) ?st) dup
      = Some (Some (JsError ''more than one message with the same alias found ''),
              mutate (Create ?created) ?st)"
    using two by (simp add: importMessage_def Let_def)
  have run: "runImport demoApi
            \<lparr> moduleErrors = [], loadMessagePlugin = Some ''plugin.x'',
              loadMessages = Some (\<lambda>settings fs. Inr [dup, cheers]) \<rparr> enDe ?st
          = Some (Some (JsError ''more than one message with the same alias found ''),
                  mutate (Create ?created) ?st)"
    using first second sorted
    by (simp add: runImport_def demoApi_def)
  have log: "mutations (mutate (Create ?created) ?st) = [Create ?created]"
    by (simp add: mutate_def initialState_def)
  have changed: "messagesQuery (mutate (Create ?created) ?st) \<noteq> [(''d1'', dupOne), (''d2'', dupTwo)]"
    by (simp add: mutate_def initialState_def create_def cheers_def)
  show ?thesis using run log changed by blast
qed

text \<open>
  C3, amended. When the import reaches an imported message whose id is the alias, for the
  loading plugin, of two or more messages of the query, it throws the error of the
  duplicate alias. Nothing is changed for that message or for the messages after it; the
  mutations made for the imported messages before it stay. The query is as it was before
  the import when the message is the first of the sorted messages.
\<close>

theorem duplicate_alias_stops_import:
  assumes "importMessages api loadPluginId st before = Some (None, st1)"
      and "length (filter (\<lambda>message. map_of (alias_msg message) loadPluginId
                                       = Some (id_msg importedMessage))
                     (getAll (messagesQuery st1))) > 1"
  shows "importMessages api loadPluginId st (before @ importedMessage # after)
         = Some (Some (JsError ''more than one message with the same alias found ''), st1)
       \<and> (before = [] \<longrightarrow> st1 = st)"
proof -
  have "importMessage api loadPluginId st1 importedMessage
        = Some (Some (JsError ''more than one message with the same alias found ''), st1)"
    using assms(2) by (simp add: importMessage_def Let_def)
  then have "importMessages api loadPluginId st (before @ importedMessage # after)
         = Some (Some (JsError ''more than one message with the same alias found ''), st1)"
    using assms(1) by (simp add: importMessages_append)
  moreover have "before = [] \<longrightarrow> st1 = st"
    using assms(1) by auto
  ultimately show ?thesis by blast
qed

theorem duplicate_alias_witness:
  "importMessages demoApi ''plugin.x''
     ((initialState Map.empty)\<lparr> messagesQuery := [(''d1'', dupOne), (''d2'', dupTwo)] \<rparr>)
     ([] @ dup # [goodbye])
   = Some (Some (JsError ''more than one message with the same alias found ''),
           (initialState Map.empty)\<lparr> messagesQuery := [(''d1'', dupOne), (''d2'', dupTwo)] \<rparr>)"
proof -
  let ?st = "(initialState Map.empty)\<lparr> messagesQuery := [(''d1'', dupOne), (''d2'', dupTwo)] \<rparr>"
  have h1: "importMessages demoApi ''plugin.x'' ?st [] = Some (None, ?st)"
    by simp
  have h2: "length (filter (\<lambda>message. map_of (alias_msg message) ''plugin.x''
                                       = Some (id_msg dup))
                     (getAll (messagesQuery ?st))) > 1"
    by (simp add: getAll_def initialState_def dupOne_def dupTwo_def dup_def)
  show ?thesis
    using duplicate_alias_stops_import [OF h1 h2, of "[goodbye]"] by blast
qed

text \<open>
  C2. The search for a new id looks at the path \<open>getPathFromMessageId id\<close>, without the
  message folder; the message files are written to, and removed from, the message folder.
  Here the file of the message \<open>g_\<close> is in the message folder and the message is in the
  query; the imported message \<open>greeting\<close>, which has no alias match, is given the id \<open>g_\<close>
  all the same. And two imported messages whose hashes agree, in a project with no file at
  all, are given the same id, since nothing is written between the two searches.
\<close>

theorem new_id_collides:
  "nodeishFs takenState (demoFolder @ ''/'' @ getPathFromMessageId demoApi ''g_'')
     = Some (File ''g_||en=Old;'')
   \<and> get (messagesQuery takenState) ''g_'' = Some taken
   \<and> importMessage demoApi ''plugin.x'' takenState greeting
     = Some (None,
         mutate (Create (greeting\<lparr> alias_msg := importedAlias ''plugin.x'' ''greeting'',
                                    id_msg := ''g_'' \<rparr>)) takenState)
   \<and> importMessages demoApi ''plugin.x'' (initialState Map.empty) [goodbye, greeting]
     = Some (None,
         mutate (Create (greeting\<lparr> alias_msg := importedAlias ''plugin.x'' ''greeting'',
                                    id_msg := ''g_'' \<rparr>))
           (mutate (Create (goodbye\<lparr> alias_msg := importedAlias ''plugin.x'' ''goodbye'',
                                      id_msg := ''g_'' \<rparr>))
              (initialState Map.empty)))"
proof -
  let ?g = "greeting\<lparr> alias_msg := importedAlias ''plugin.x'' ''greeting'', id_msg := ''g_'' \<rparr>"
  let ?b = "goodbye\<lparr> alias_msg := importedAlias ''plugin.x'' ''goodbye'', id_msg := ''g_'' \<rparr>"
  have onDisk: "nodeishFs takenState (demoFolder @ ''/'' @ getPathFromMessageId demoApi ''g_'')
     = Some (File ''g_||en=Old;'')"
    by (simp add: takenState_def initialState_def demoApi_def)
  have inq: "get (messagesQuery takenState) ''g_'' = Some taken"
    by (simp add: takenState_def get_def)
  have free1: "findMessageId demoApi (nodeishFs takenState) ''greeting'' 0 = Some (Inr ''g_'')"
    using findMessageId_free [of "nodeishFs takenState" demoApi "''greeting''" 0]
    by (simp add: stat_def demoApi_def takenState_def initialState_def demoFolder_def)
  have none1: "filter (\<lambda>message. map_of (alias_msg message) ''plugin.x'' = Some (id_msg greeting))
      (getAll (messagesQuery takenState)) = []"
    by (simp add: getAll_def takenState_def taken_def)
  have one: "importMessage demoApi ''plugin.x'' takenState greeting
      = Some (None, mutate (Create ?g) takenState)"
    using none1 free1
    by (simp add: importMessage_def Let_def) (simp add: greeting_def)
  have free2: "findMessageId demoApi Map.empty ''goodbye'' 0 = Some (Inr ''g_'')"
    using findMessageId_free [of Map.empty demoApi "''goodbye''" 0]
    by (simp add: stat_def demoApi_def)
  have free3: "findMessageId demoApi Map.empty ''greeting'' 0 = Some (Inr ''g_'')"
    using findMessageId_free [of Map.empty demoApi "''greeting''" 0]
    by (simp add: stat_def demoApi_def)
  have a: "importMessage demoApi ''plugin.x'' (initialState Map.empty) goodbye
      = Some (None, mutate (Create ?b) (initialState Map.empty))"
    using free2
    by (simp add: importMessage_def Let_def getAll_def initialState_def) (simp add: goodbye_def)
  have none2: "filter (\<lambda>message. map_of (alias_msg message) ''plugin.x'' = Some (id_msg greeting))
      (getAll (messagesQuery (mutate (Create ?b) (initialState Map.empty)))) = []"
    by (simp add: getAll_def mutate_def create_def initialState_def goodbye_def greeting_def
        importedAlias_def)
  have fs: "nodeishFs (mutate (Create ?b) (initialState Map.empty)) = Map.empty"
    by (simp add: mutate_def initialState_def)
  have b: "importMessage demoApi ''plugin.x'' (mutate (Create ?b) (initialState Map.empty)) greeting
      = Some (None, mutate (Create ?g) (mutate (Create ?b) (initialState Map.empty)))"
    using none2 free3
    by (simp add: importMessage_def Let_def fs) (simp add: greeting_def)
  have two: "importMessages demoApi ''plugin.x'' (initialState Map.empty) [goodbye, greeting]
     = Some (None, mutate (Create ?g) (mutate (Create ?b) (initialState Map.empty)))"
    using a b by simp
  show ?thesis using onDisk inq one two by blast
qed

subsection \<open>Running the import twice\<close>

lemma update_at_first_key:
  "k \<notin> fst ` set xs \<Longrightarrow> AList.update k new (xs @ (k, old) # ys) = xs @ (k, new) # ys"
  by (induction xs) auto

lemma split_at_key:
  "map_of s k = Some old \<Longrightarrow> \<exists>xs ys. s = xs @ (k, old) # ys \<and> k \<notin> fst ` set xs"
proof (induction s)
  case Nil
  then show ?case by simp
next
  case (Cons a s)
  show ?case
  proof (cases "fst a = k")
    case True
    then have "a = (k, old)" using Cons.prems by (cases a) simp
    then have "a # s = [] @ (k, old) # s \<and> k \<notin> fst ` set []" by simp
    then show ?thesis by blast
  next
    case False
    then have "map_of s k = Some old" using Cons.prems by (cases a) simp
    then obtain xs ys where "s = xs @ (k, old) # ys" and "k \<notin> fst ` set xs"
      using Cons.IH by blast
    then have "a # s = (a # xs) @ (k, old) # ys \<and> k \<notin> fst ` set (a # xs)"
      using False by auto
    then show ?thesis by blast
  qed
qed

lemma filter_update_other:
  assumes "map_of s k = Some old" and "\<not> P old" and "\<not> P new"
  shows "filter P (map snd (AList.update k new s)) = filter P (map snd s)"
proof -
  obtain xs ys where "s = xs @ (k, old) # ys" and "k \<notin> fst ` set xs"
    using split_at_key [OF assms(1)] by blast
  then show ?thesis using assms(2,3) by (simp add: update_at_first_key)
qed

lemma filter_update_match:
  assumes "map_of s k = Some old" and "filter P (map snd s) = [old]" and "P new"
  shows "filter P (map snd (AList.update k new s)) = [new]"
proof -
  obtain xs ys where s: "s = xs @ (k, old) # ys" and k: "k \<notin> fst ` set xs"
    using split_at_key [OF assms(1)] by blast
  have "old \<in> set (filter P (map snd s))" using assms(2) by simp
  then have "P old" by simp
  then have "filter P (map snd xs) @ old # filter P (map snd ys) = [old]"
    using assms(2) s by simp
  then have "filter P (map snd xs) = [] \<and> filter P (map snd ys) = []"
    by (simp add: append_eq_Cons_conv)
  then show ?thesis using s k assms(3) by (simp add: update_at_first_key)
qed

lemma keyedById_lookup:
  assumes "keyedById store" and "message \<in> set (getAll store)"
  shows "map_of store (id_msg message) = Some message"
proof -
  obtain k where "(k, message) \<in> set store"
    using assms(2) by (auto simp add: getAll_def)
  moreover from this have "id_msg message = k"
    using assms(1) by (auto simp add: keyedById_def list_all_iff)
  ultimately show ?thesis
    using assms(1) by (simp add: keyedById_def)
qed

lemma keyedById_update:
  assumes "keyedById store" and "map_of store k = Some old" and "id_msg new = k"
  shows "keyedById (AList.update k new store)"
proof -
  obtain xs ys where s: "store = xs @ (k, old) # ys" and k: "k \<notin> fst ` set xs"
    using split_at_key [OF assms(2)] by blast
  show ?thesis
    using assms(1,3) s k by (auto simp add: keyedById_def update_at_first_key)
qed

lemma keyedById_append:
  assumes "keyedById store" and "map_of store (id_msg new) = None"
  shows "keyedById (store @ [(id_msg new, new)])"
  using assms by (auto simp add: keyedById_def map_of_eq_None_iff)

lemma importMessage_step:
  assumes keyed: "keyedById (messagesQuery st)"
      and fresh: "aliasMatches p (id_msg m) (messagesQuery st) = []
                  \<longrightarrow> (\<forall>i. findMessageId api (nodeishFs st) (id_msg m) 0 = Some (Inr i)
                         \<longrightarrow> map_of (messagesQuery st) i = None)"
      and step: "importMessage api p st m = Some (None, st')"
  shows "keyedById (messagesQuery st')
       \<and> settled api p (messagesQuery st') m
       \<and> nodeishFs st' = nodeishFs st
       \<and> (\<forall>i0. i0 \<noteq> id_msg m
             \<longrightarrow> aliasMatches p i0 (messagesQuery st') = aliasMatches p i0 (messagesQuery st))
       \<and> (\<forall>k. map_of (messagesQuery st') k \<noteq> None
             \<longrightarrow> map_of (messagesQuery st) k \<noteq> None
                 \<or> (aliasMatches p (id_msg m) (messagesQuery st) = []
                    \<and> findMessageId api (nodeishFs st) (id_msg m) 0 = Some (Inr k)))"
proof -
  let ?S = "messagesQuery st"
  let ?cs = "aliasMatches p (id_msg m) ?S"
  let ?A = "importedAlias p (id_msg m)"
  have unfolded: "importMessage api p st m =
    (if length ?cs > 1
     then Some (Some (JsError ''more than one message with the same alias found ''), st)
     else
      (case ?cs of
         [currentMessage] \<Rightarrow>
           (if encodeMessage api (m\<lparr> alias_msg := ?A, id_msg := id_msg currentMessage \<rparr>)
               = encodeMessage api currentMessage
            then Some (None, st)
            else Some (None,
                   mutate (Update (id_msg currentMessage)
                     (m\<lparr> alias_msg := ?A, id_msg := id_msg currentMessage \<rparr>)) st))
       | _ \<Rightarrow>
           (case findMessageId api (nodeishFs st) (id_msg m) 0 of
              None \<Rightarrow> None
            | Some (Inl e) \<Rightarrow> Some (Some e, st)
            | Some (Inr messsageId) \<Rightarrow>
                Some (None, mutate (Create (m\<lparr> alias_msg := ?A, id_msg := messsageId \<rparr>)) st))))"
    by (simp add: importMessage_def aliasMatches_def Let_def split: list.splits)
  have aliasP: "map_of ?A p = Some (id_msg m)"
    by (simp add: map_of_importedAlias)
  consider (none) "?cs = []" | (one) cur where "?cs = [cur]" | (more) "length ?cs > 1"
    by (cases ?cs rule: list.exhaust; cases "tl ?cs"; auto)
  then show ?thesis
  proof cases
    case more
    then show ?thesis using step unfolded by simp
  next
    case none
    then obtain i where found: "findMessageId api (nodeishFs st) (id_msg m) 0 = Some (Inr i)"
      and st': "st' = mutate (Create (m\<lparr> alias_msg := ?A, id_msg := i \<rparr>)) st"
      using step unfolded by (auto split: option.splits sum.splits)
    let ?new = "m\<lparr> alias_msg := ?A, id_msg := i \<rparr>"
    have free: "map_of ?S i = None" using fresh found none by simp
    have S': "messagesQuery st' = ?S @ [(i, ?new)]"
      using st' free by (simp add: mutate_def create_def)
    have k: "keyedById (messagesQuery st')"
      using keyedById_append [OF keyed, of ?new] free S' by simp
    have matches: "aliasMatches p (id_msg m) (messagesQuery st') = [?new]"
      using none aliasP by (simp add: S' aliasMatches_def getAll_def)
    have s: "settled api p (messagesQuery st') m"
      by (simp add: settled_def matches)
    have f: "nodeishFs st' = nodeishFs st"
      by (simp add: st' mutate_def)
    have others: "\<forall>i0. i0 \<noteq> id_msg m
        \<longrightarrow> aliasMatches p i0 (messagesQuery st') = aliasMatches p i0 ?S"
      using aliasP by (simp add: S' aliasMatches_def getAll_def)
    have keys: "\<forall>k. map_of (messagesQuery st') k \<noteq> None
        \<longrightarrow> map_of ?S k \<noteq> None
            \<or> (?cs = [] \<and> findMessageId api (nodeishFs st) (id_msg m) 0 = Some (Inr k))"
      using found none by (auto simp add: S' split: if_splits)
    show ?thesis using k s f others keys by blast
  next
    case (one cur)
    let ?imported = "m\<lparr> alias_msg := ?A, id_msg := id_msg cur \<rparr>"
    have curIn: "cur \<in> set (getAll ?S)" and curP: "map_of (alias_msg cur) p = Some (id_msg m)"
      using one by (auto simp add: aliasMatches_def dest: filter_eq_ConsD)
    have look: "map_of ?S (id_msg cur) = Some cur"
      using keyedById_lookup [OF keyed curIn] .
    show ?thesis
    proof (cases "encodeMessage api ?imported = encodeMessage api cur")
      case True
      then have "st' = st" using step unfolded one by simp
      moreover have "settled api p ?S m"
        using one True by (simp add: settled_def)
      ultimately show ?thesis using keyed by simp
    next
      case False
      then have st': "st' = mutate (Update (id_msg cur) ?imported) st"
        using step unfolded one by simp
      have S': "messagesQuery st' = AList.update (id_msg cur) ?imported ?S"
        using st' look by (simp add: mutate_def update_def)
      have k: "keyedById (messagesQuery st')"
        using keyedById_update [OF keyed look, of ?imported] S' by simp
      have "filter (\<lambda>message. map_of (alias_msg message) p = Some (id_msg m)) (map snd ?S) = [cur]"
        using one by (simp add: aliasMatches_def getAll_def)
      then have matches: "aliasMatches p (id_msg m) (messagesQuery st') = [?imported]"
        using filter_update_match [OF look, of "\<lambda>message. map_of (alias_msg message) p = Some (id_msg m)" ?imported]
          aliasP
        by (simp add: S' aliasMatches_def getAll_def)
      have s: "settled api p (messagesQuery st') m"
        by (simp add: settled_def matches)
      have f: "nodeishFs st' = nodeishFs st"
        by (simp add: st' mutate_def)
      have others: "\<forall>i0. i0 \<noteq> id_msg m
          \<longrightarrow> aliasMatches p i0 (messagesQuery st') = aliasMatches p i0 ?S"
      proof (intro allI impI)
        fix i0 assume "i0 \<noteq> id_msg m"
        then show "aliasMatches p i0 (messagesQuery st') = aliasMatches p i0 ?S"
          using filter_update_other [OF look, of "\<lambda>message. map_of (alias_msg message) p = Some i0" ?imported]
            aliasP curP
          by (simp add: S' aliasMatches_def getAll_def)
      qed
      have keys: "\<forall>k. map_of (messagesQuery st') k \<noteq> None \<longrightarrow> map_of ?S k \<noteq> None
          \<or> (?cs = [] \<and> findMessageId api (nodeishFs st) (id_msg m) 0 = Some (Inr k))"
        using look by (auto simp add: S' update_conv' split: if_splits)
      show ?thesis using k s f others keys by blast
    qed
  qed
qed

lemma settled_importMessage:
  "settled api p (messagesQuery st) m \<Longrightarrow> importMessage api p st m = Some (None, st)"
  by (auto simp add: settled_def importMessage_def aliasMatches_def Let_def split: list.splits)

lemma settled_importMessages:
  "\<forall>m \<in> set ms. settled api p (messagesQuery st) m
   \<Longrightarrow> importMessages api p st ms = Some (None, st)"
  by (induction ms) (simp_all add: settled_importMessage)

lemma settled_cong:
  "aliasMatches p (id_msg m) store' = aliasMatches p (id_msg m) store
   \<Longrightarrow> settled api p store' m = settled api p store m"
  by (simp add: settled_def)

lemma importMessages_settles:
  assumes "keyedById (messagesQuery st)"
      and "distinct (map id_msg ms)"
      and "\<forall>m \<in> set ms. aliasMatches p (id_msg m) (messagesQuery st) = []
             \<longrightarrow> (\<forall>i. findMessageId api (nodeishFs st) (id_msg m) 0 = Some (Inr i)
                    \<longrightarrow> map_of (messagesQuery st) i = None)"
      and "\<forall>m \<in> set ms. \<forall>m' \<in> set ms. \<forall>i.
             aliasMatches p (id_msg m) (messagesQuery st) = []
             \<and> aliasMatches p (id_msg m') (messagesQuery st) = []
             \<and> findMessageId api (nodeishFs st) (id_msg m) 0 = Some (Inr i)
             \<and> findMessageId api (nodeishFs st) (id_msg m') 0 = Some (Inr i)
             \<longrightarrow> id_msg m = id_msg m'"
      and "importMessages api p st ms = Some (None, st1)"
  shows "(\<forall>m \<in> set ms. settled api p (messagesQuery st1) m)
       \<and> nodeishFs st1 = nodeishFs st
       \<and> (\<forall>i0. i0 \<notin> id_msg ` set ms
             \<longrightarrow> aliasMatches p i0 (messagesQuery st1) = aliasMatches p i0 (messagesQuery st))"
  using assms
proof (induction ms arbitrary: st)
  case Nil
  then show ?case by simp
next
  case (Cons m rest)
  from Cons.prems(5) obtain st' where step: "importMessage api p st m = Some (None, st')"
    and run: "importMessages api p st' rest = Some (None, st1)"
    by (auto split: option.splits prod.splits)
  have fresh_m: "aliasMatches p (id_msg m) (messagesQuery st) = []
      \<longrightarrow> (\<forall>i. findMessageId api (nodeishFs st) (id_msg m) 0 = Some (Inr i)
             \<longrightarrow> map_of (messagesQuery st) i = None)"
    using Cons.prems(3) by simp
  note facts = importMessage_step [OF Cons.prems(1) fresh_m step]
  have keyed': "keyedById (messagesQuery st')" using facts by blast
  have settled_m: "settled api p (messagesQuery st') m" using facts by blast
  have fs': "nodeishFs st' = nodeishFs st" using facts by blast
  have others: "\<And>i0. i0 \<noteq> id_msg m
      \<Longrightarrow> aliasMatches p i0 (messagesQuery st') = aliasMatches p i0 (messagesQuery st)"
    using facts by blast
  have keys: "\<And>k. map_of (messagesQuery st') k \<noteq> None
      \<Longrightarrow> map_of (messagesQuery st) k \<noteq> None
         \<or> (aliasMatches p (id_msg m) (messagesQuery st) = []
            \<and> findMessageId api (nodeishFs st) (id_msg m) 0 = Some (Inr k))"
    using facts by blast
  have notin: "id_msg m \<notin> id_msg ` set rest" and dist: "distinct (map id_msg rest)"
    using Cons.prems(2) by auto
  have same: "\<And>m'. m' \<in> set rest
      \<Longrightarrow> aliasMatches p (id_msg m') (messagesQuery st')
          = aliasMatches p (id_msg m') (messagesQuery st)"
    using others notin by (metis imageI)
  have fresh': "\<forall>m' \<in> set rest. aliasMatches p (id_msg m') (messagesQuery st') = []
      \<longrightarrow> (\<forall>i. findMessageId api (nodeishFs st') (id_msg m') 0 = Some (Inr i)
             \<longrightarrow> map_of (messagesQuery st') i = None)"
  proof (intro ballI allI impI)
    fix m' i
    assume m': "m' \<in> set rest"
      and new': "aliasMatches p (id_msg m') (messagesQuery st') = []"
      and found: "findMessageId api (nodeishFs st') (id_msg m') 0 = Some (Inr i)"
    have found0: "findMessageId api (nodeishFs st) (id_msg m') 0 = Some (Inr i)"
      using found by (simp add: fs')
    have new0: "aliasMatches p (id_msg m') (messagesQuery st) = []"
      using new' same [OF m'] by simp
    show "map_of (messagesQuery st') i = None"
    proof (rule ccontr)
      assume "map_of (messagesQuery st') i \<noteq> None"
      then consider "map_of (messagesQuery st) i \<noteq> None"
        | "aliasMatches p (id_msg m) (messagesQuery st) = []
           \<and> findMessageId api (nodeishFs st) (id_msg m) 0 = Some (Inr i)"
        using keys by blast
      then show False
      proof cases
        case 1
        then show False using Cons.prems(3) m' found0 new0 by auto
      next
        case 2
        then have "id_msg m = id_msg m'"
          using Cons.prems(4) m' found0 new0 by auto
        then show False using notin m' by auto
      qed
    qed
  qed
  have inj': "\<forall>m1 \<in> set rest. \<forall>m2 \<in> set rest. \<forall>i.
             aliasMatches p (id_msg m1) (messagesQuery st') = []
             \<and> aliasMatches p (id_msg m2) (messagesQuery st') = []
             \<and> findMessageId api (nodeishFs st') (id_msg m1) 0 = Some (Inr i)
             \<and> findMessageId api (nodeishFs st') (id_msg m2) 0 = Some (Inr i)
             \<longrightarrow> id_msg m1 = id_msg m2"
  proof (intro ballI allI impI)
    fix m1 m2 i
    assume m1: "m1 \<in> set rest" and m2: "m2 \<in> set rest"
      and h: "aliasMatches p (id_msg m1) (messagesQuery st') = []
             \<and> aliasMatches p (id_msg m2) (messagesQuery st') = []
             \<and> findMessageId api (nodeishFs st') (id_msg m1) 0 = Some (Inr i)
             \<and> findMessageId api (nodeishFs st') (id_msg m2) 0 = Some (Inr i)"
    have "aliasMatches p (id_msg m1) (messagesQuery st) = []
        \<and> aliasMatches p (id_msg m2) (messagesQuery st) = []
        \<and> findMessageId api (nodeishFs st) (id_msg m1) 0 = Some (Inr i)
        \<and> findMessageId api (nodeishFs st) (id_msg m2) 0 = Some (Inr i)"
      using h same [OF m1] same [OF m2] by (simp add: fs')
    then show "id_msg m1 = id_msg m2"
      using Cons.prems(4) m1 m2 by auto
  qed
  note ih = Cons.IH [OF keyed' dist fresh' inj' run]
  have rest_settled: "\<forall>m' \<in> set rest. settled api p (messagesQuery st1) m'"
    using ih by blast
  have fs1: "nodeishFs st1 = nodeishFs st" using ih fs' by simp
  have outside: "\<And>i0. i0 \<notin> id_msg ` set rest
      \<Longrightarrow> aliasMatches p i0 (messagesQuery st1) = aliasMatches p i0 (messagesQuery st')"
    using ih by blast
  have "settled api p (messagesQuery st1) m"
    using settled_cong [OF outside [OF notin], of api] settled_m by simp
  moreover have "\<forall>i0. i0 \<notin> id_msg ` set (m # rest)
      \<longrightarrow> aliasMatches p i0 (messagesQuery st1) = aliasMatches p i0 (messagesQuery st)"
    using outside others by auto
  ultimately show ?case using rest_settled fs1 by simp
qed

lemma set_insertImported: "set (insertImported compare m ms) = insert m (set ms)"
  by (induction ms) auto

lemma distinct_insertImported:
  "distinct (map id_msg (insertImported compare m ms))
   \<longleftrightarrow> id_msg m \<notin> id_msg ` set ms \<and> distinct (map id_msg ms)"
  by (induction ms) (auto simp add: set_insertImported)

lemma set_messagesToImportSorted: "set (messagesToImportSorted compare ms) = set ms"
  by (induction ms) (simp_all add: messagesToImportSorted_def set_insertImported)

lemma distinct_messagesToImportSorted:
  "distinct (map id_msg (messagesToImportSorted compare ms)) = distinct (map id_msg ms)"
proof (induction ms)
  case Nil
  then show ?case by (simp add: messagesToImportSorted_def)
next
  case (Cons m ms)
  have "messagesToImportSorted compare (m # ms)
        = insertImported compare m (messagesToImportSorted compare ms)"
    by (simp add: messagesToImportSorted_def)
  then show ?case
    using Cons.IH set_messagesToImportSorted [of compare ms]
    by (simp add: distinct_insertImported)
qed

lemma messagesQuery_mutate: "messagesQuery (mutate m st) = applyMutation m (messagesQuery st)"
  by (simp add: mutate_def)

text \<open>
  C5, as stated, fails. Here the plugin gives two messages with the same id: the first run
  creates a message for the first and updates it with the second; the second run finds
  that message for both, with the encoding of the second, and updates it twice more.
\<close>

theorem import_twice_counterexample:
  "\<exists>st1 st2.
      runImport demoApi sameIdTwice enDe (initialState Map.empty) = Some (None, st1)
    \<and> runImport demoApi sameIdTwice enDe st1 = Some (None, st2)
    \<and> mutations st2
        = mutations st1
          @ [Update ''g_'' (greeting\<lparr> alias_msg := importedAlias ''plugin.x'' ''greeting'',
                                        id_msg := ''g_'' \<rparr>),
             Update ''g_'' (greetingAgain\<lparr> alias_msg := importedAlias ''plugin.x'' ''greeting'',
                                             id_msg := ''g_'' \<rparr>)]"
proof -
  let ?st0 = "initialState Map.empty"
  let ?g = "greeting\<lparr> alias_msg := importedAlias ''plugin.x'' ''greeting'', id_msg := ''g_'' \<rparr>"
  let ?a = "greetingAgain\<lparr> alias_msg := importedAlias ''plugin.x'' ''greeting'', id_msg := ''g_'' \<rparr>"
  let ?s1 = "mutate (Create ?g) ?st0"
  let ?s2 = "mutate (Update ''g_'' ?a) ?s1"
  let ?s3 = "mutate (Update ''g_'' ?g) ?s2"
  let ?s4 = "mutate (Update ''g_'' ?a) ?s3"
  have ids: "id_msg greeting = ''greeting''" "id_msg greetingAgain = ''greeting''"
    by (simp_all add: greeting_def greetingAgain_def)
  have sorted: "messagesToImportSorted compareCodeUnits [greeting, greetingAgain]
      = [greeting, greetingAgain]"
    by (simp add: messagesToImportSorted_def ids)
  have free: "findMessageId demoApi Map.empty ''greeting'' 0 = Some (Inr ''g_'')"
    using findMessageId_free [of Map.empty demoApi "''greeting''" 0]
    by (simp add: stat_def demoApi_def)
  have enc: "encodeMessage demoApi ?g \<noteq> encodeMessage demoApi ?a"
    by (simp add: demoApi_def demoEncode_def greeting_def greetingAgain_def showPairs_def)
  have q1: "messagesQuery ?s1 = [(''g_'', ?g)]"
    by (simp add: messagesQuery_mutate create_def initialState_def)
  have q2: "messagesQuery ?s2 = [(''g_'', ?a)]"
    by (simp add: messagesQuery_mutate create_def update_def initialState_def)
  have q3: "messagesQuery ?s3 = [(''g_'', ?g)]"
    by (simp add: messagesQuery_mutate create_def update_def initialState_def)
  have fs: "nodeishFs ?st0 = Map.empty" "nodeishFs ?s1 = Map.empty" "nodeishFs ?s2 = Map.empty"
    "nodeishFs ?s3 = Map.empty"
    by (simp_all add: mutate_def initialState_def)
  have m0: "aliasMatches ''plugin.x'' ''greeting'' (messagesQuery ?st0) = []"
    by (simp add: aliasMatches_def getAll_def initialState_def)
  have m1: "aliasMatches ''plugin.x'' ''greeting'' (messagesQuery ?s1) = [?g]"
    by (simp add: aliasMatches_def getAll_def q1 map_of_importedAlias)
  have m2: "aliasMatches ''plugin.x'' ''greeting'' (messagesQuery ?s2) = [?a]"
    by (simp add: aliasMatches_def getAll_def q2 map_of_importedAlias)
  have m3: "aliasMatches ''plugin.x'' ''greeting'' (messagesQuery ?s3) = [?g]"
    by (simp add: aliasMatches_def getAll_def q3 map_of_importedAlias)
  have a: "importMessage demoApi ''plugin.x'' ?st0 greeting = Some (None, ?s1)"
    using m0 free by (simp add: importMessage_def Let_def aliasMatches_def ids fs)
  have b: "importMessage demoApi ''plugin.x'' ?s1 greetingAgain = Some (None, ?s2)"
    using m1 enc by (simp add: importMessage_def Let_def aliasMatches_def ids)
  have c: "importMessage demoApi ''plugin.x'' ?s2 greeting = Some (None, ?s3)"
    using m2 enc by (simp add: importMessage_def Let_def aliasMatches_def ids)
  have d: "importMessage demoApi ''plugin.x'' ?s3 greetingAgain = Some (None, ?s4)"
    using m3 enc by (simp add: importMessage_def Let_def aliasMatches_def ids)
  have api: "localeCompare demoApi = compareCodeUnits"
    by (simp add: demoApi_def)
  have run1: "runImport demoApi sameIdTwice enDe ?st0 = Some (None, ?s2)"
    using a b by (simp add: runImport_def sameIdTwice_def api sorted)
  have run2: "runImport demoApi sameIdTwice enDe ?s2 = Some (None, ?s4)"
    using c d by (simp add: runImport_def sameIdTwice_def api sorted)
  have log: "mutations ?s4 = mutations ?s2 @ [Update ''g_'' ?g, Update ''g_'' ?a]"
    by (simp add: mutate_def)
  show ?thesis using run1 run2 log by blast
qed

text \<open>
  C5, amended. Let the query keep every message under its own id, and let the messages that
  the plugin gives have ids that differ from one another. Of the imported messages, call
  new those that have no alias match in the query before the first run; let the ids that
  the import finds for the new messages be free in the query and differ from one another.
  Nothing is asked of the imported messages that the query holds already, under whatever
  id. Then, when the first run of the import has gone through, every imported message has
  exactly one alias match in the query with the same encoding, and a second run with the
  same messages changes nothing: started in any state with that query in which the plugin
  gives the same messages, it makes no call of a mutating operation and ends in the state
  in which it started.
\<close>

theorem import_twice_no_mutation:
  assumes "keyedById (messagesQuery st)"
      and "loadMessagePlugin resolved = Some loadPluginId"
      and "loadMessages resolved = Some load"
      and "load settingsValue (nodeishFs st) = Inr importedMessages"
      and "distinct (map id_msg importedMessages)"
      and "\<forall>m \<in> set importedMessages.
             aliasMatches loadPluginId (id_msg m) (messagesQuery st) = []
             \<longrightarrow> (\<forall>i. findMessageId api (nodeishFs st) (id_msg m) 0 = Some (Inr i)
                    \<longrightarrow> get (messagesQuery st) i = None)"
      and "\<forall>m \<in> set importedMessages. \<forall>m' \<in> set importedMessages. \<forall>i.
             aliasMatches loadPluginId (id_msg m) (messagesQuery st) = []
             \<and> aliasMatches loadPluginId (id_msg m') (messagesQuery st) = []
             \<and> findMessageId api (nodeishFs st) (id_msg m) 0 = Some (Inr i)
             \<and> findMessageId api (nodeishFs st) (id_msg m') 0 = Some (Inr i)
             \<longrightarrow> id_msg m = id_msg m'"
      and "runImport api resolved settingsValue st = Some (None, st1)"
  shows "(\<forall>m \<in> set importedMessages. settled api loadPluginId (messagesQuery st1) m)
       \<and> (\<forall>st2. messagesQuery st2 = messagesQuery st1
                \<and> load settingsValue (nodeishFs st2) = Inr importedMessages
             \<longrightarrow> runImport api resolved settingsValue st2 = Some (None, st2))"
proof -
  let ?sorted = "messagesToImportSorted (localeCompare api) importedMessages"
  let ?p = loadPluginId
  have first: "importMessages api ?p st ?sorted = Some (None, st1)"
    using assms(2,3,4,8) by (simp add: runImport_def)
  have dist: "distinct (map id_msg ?sorted)"
    using assms(5) by (simp add: distinct_messagesToImportSorted)
  have fresh: "\<forall>m \<in> set ?sorted. aliasMatches ?p (id_msg m) (messagesQuery st) = []
      \<longrightarrow> (\<forall>i. findMessageId api (nodeishFs st) (id_msg m) 0 = Some (Inr i)
             \<longrightarrow> map_of (messagesQuery st) i = None)"
    using assms(6) by (simp add: set_messagesToImportSorted get_def)
  have inj: "\<forall>m \<in> set ?sorted. \<forall>m' \<in> set ?sorted. \<forall>i.
      aliasMatches ?p (id_msg m) (messagesQuery st) = []
      \<and> aliasMatches ?p (id_msg m') (messagesQuery st) = []
      \<and> findMessageId api (nodeishFs st) (id_msg m) 0 = Some (Inr i)
      \<and> findMessageId api (nodeishFs st) (id_msg m') 0 = Some (Inr i)
      \<longrightarrow> id_msg m = id_msg m'"
    using assms(7) by (simp add: set_messagesToImportSorted)
  note facts = importMessages_settles [OF assms(1) dist fresh inj first]
  have all: "\<forall>m \<in> set ?sorted. settled api ?p (messagesQuery st1) m"
    using facts by blast
  have again: "runImport api resolved settingsValue st2 = Some (None, st2)"
    if q: "messagesQuery st2 = messagesQuery st1"
      and l: "load settingsValue (nodeishFs st2) = Inr importedMessages" for st2
  proof -
    have "\<forall>m \<in> set ?sorted. settled api ?p (messagesQuery st2) m"
      using all q by simp
    then have "importMessages api ?p st2 ?sorted = Some (None, st2)"
      by (rule settled_importMessages)
    then show ?thesis
      using assms(2,3) l by (simp add: runImport_def)
  qed
  show ?thesis
    using again all by (simp add: set_messagesToImportSorted)
qed

theorem import_twice_witness:
  "settled demoApi ''plugin.x''
     (messagesQuery
        (mutate (Create (cheers\<lparr> alias_msg := importedAlias ''plugin.x'' ''cheers'',
                                  id_msg := ''c_'' \<rparr>))
           ((initialState Map.empty)
              \<lparr> messagesQuery :=
                  [(''g_'', greeting\<lparr> alias_msg := importedAlias ''plugin.x'' ''greeting'',
                                         id_msg := ''g_'' \<rparr>)] \<rparr>))) greeting
   \<and> settled demoApi ''plugin.x''
       (messagesQuery
          (mutate (Create (cheers\<lparr> alias_msg := importedAlias ''plugin.x'' ''cheers'',
                                    id_msg := ''c_'' \<rparr>))
             ((initialState Map.empty)
                \<lparr> messagesQuery :=
                    [(''g_'', greeting\<lparr> alias_msg := importedAlias ''plugin.x'' ''greeting'',
                                           id_msg := ''g_'' \<rparr>)] \<rparr>))) cheers
   \<and> runImport demoApi twoMessages enDe
       (mutate (Create (cheers\<lparr> alias_msg := importedAlias ''plugin.x'' ''cheers'',
                                 id_msg := ''c_'' \<rparr>))
          ((initialState Map.empty)
             \<lparr> messagesQuery :=
                 [(''g_'', greeting\<lparr> alias_msg := importedAlias ''plugin.x'' ''greeting'',
                                        id_msg := ''g_'' \<rparr>)] \<rparr>))
     = Some (None,
         mutate (Create (cheers\<lparr> alias_msg := importedAlias ''plugin.x'' ''cheers'',
                                   id_msg := ''c_'' \<rparr>))
           ((initialState Map.empty)
              \<lparr> messagesQuery :=
                  [(''g_'', greeting\<lparr> alias_msg := importedAlias ''plugin.x'' ''greeting'',
                                         id_msg := ''g_'' \<rparr>)] \<rparr>))"
proof -
  let ?g = "greeting\<lparr> alias_msg := importedAlias ''plugin.x'' ''greeting'', id_msg := ''g_'' \<rparr>"
  let ?c = "cheers\<lparr> alias_msg := importedAlias ''plugin.x'' ''cheers'', id_msg := ''c_'' \<rparr>"
  let ?st = "(initialState Map.empty)\<lparr> messagesQuery := [(''g_'', ?g)] \<rparr>"
  let ?s1 = "mutate (Create ?c) ?st"
  let ?load = "\<lambda>(settings :: project_settings) (fs :: filesystem).
                 (Inr [greeting, cheers] :: error + message list)"
  have ids: "id_msg greeting = ''greeting''" "id_msg cheers = ''cheers''"
    by (simp_all add: greeting_def cheers_def)
  have fs: "nodeishFs ?st = Map.empty" "nodeishFs ?s1 = Map.empty"
    by (simp_all add: mutate_def initialState_def)
  have freeG: "findMessageId demoApi Map.empty ''greeting'' 0 = Some (Inr ''g_'')"
    using findMessageId_free [of Map.empty demoApi "''greeting''" 0]
    by (simp add: stat_def demoApi_def)
  have freeC: "findMessageId demoApi Map.empty ''cheers'' 0 = Some (Inr ''c_'')"
    using findMessageId_free [of Map.empty demoApi "''cheers''" 0]
    by (simp add: stat_def demoApi_def)
  have mG: "aliasMatches ''plugin.x'' ''greeting'' (messagesQuery ?st) = [?g]"
    by (simp add: aliasMatches_def getAll_def map_of_importedAlias)
  have mC: "aliasMatches ''plugin.x'' ''cheers'' (messagesQuery ?st) = []"
    by (simp add: aliasMatches_def getAll_def map_of_importedAlias)
  have h1: "keyedById (messagesQuery ?st)"
    by (simp add: keyedById_def)
  have h2: "loadMessagePlugin twoMessages = Some ''plugin.x''"
    by (simp add: twoMessages_def)
  have h3: "loadMessages twoMessages = Some ?load"
    by (simp add: twoMessages_def)
  have h4: "?load enDe (nodeishFs ?st) = Inr [greeting, cheers]"
    by simp
  have h5: "distinct (map id_msg [greeting, cheers])"
    by (simp add: ids)
  have h6: "\<forall>m \<in> set [greeting, cheers].
             aliasMatches ''plugin.x'' (id_msg m) (messagesQuery ?st) = []
             \<longrightarrow> (\<forall>i. findMessageId demoApi (nodeishFs ?st) (id_msg m) 0 = Some (Inr i)
                    \<longrightarrow> get (messagesQuery ?st) i = None)"
    using mG mC by (simp add: ids fs freeC get_def)
  have h7: "\<forall>m \<in> set [greeting, cheers]. \<forall>m' \<in> set [greeting, cheers]. \<forall>i.
             aliasMatches ''plugin.x'' (id_msg m) (messagesQuery ?st) = []
             \<and> aliasMatches ''plugin.x'' (id_msg m') (messagesQuery ?st) = []
             \<and> findMessageId demoApi (nodeishFs ?st) (id_msg m) 0 = Some (Inr i)
             \<and> findMessageId demoApi (nodeishFs ?st) (id_msg m') 0 = Some (Inr i)
             \<longrightarrow> id_msg m = id_msg m'"
    using mG mC by (simp add: ids)
  have sorted: "messagesToImportSorted compareCodeUnits [greeting, cheers] = [cheers, greeting]"
    by (simp add: messagesToImportSorted_def ids)
  have api: "localeCompare demoApi = compareCodeUnits"
    by (simp add: demoApi_def)
  have a: "importMessage demoApi ''plugin.x'' ?st cheers = Some (None, ?s1)"
    using mC freeC by (simp add: importMessage_def Let_def aliasMatches_def ids fs)
  have q1: "messagesQuery ?s1 = [(''g_'', ?g), (''c_'', ?c)]"
    by (simp add: messagesQuery_mutate create_def initialState_def)
  have m1: "aliasMatches ''plugin.x'' ''greeting'' (messagesQuery ?s1) = [?g]"
    by (simp add: aliasMatches_def getAll_def q1 map_of_importedAlias)
  have b: "importMessage demoApi ''plugin.x'' ?s1 greeting = Some (None, ?s1)"
    using m1 by (simp add: importMessage_def Let_def aliasMatches_def ids)
  have h8: "runImport demoApi twoMessages enDe ?st = Some (None, ?s1)"
    using a b by (simp add: runImport_def twoMessages_def api sorted)
  have again: "messagesQuery ?s1 = messagesQuery ?s1
      \<and> ?load enDe (nodeishFs ?s1) = Inr [greeting, cheers]"
    by simp
  show ?thesis
    using import_twice_no_mutation [OF h1 h2 h3 h4 h5 h6 h7 h8] again by simp
qed

end
